theory Spec2Isabelle
  imports Complex_Main
begin

section \<open>JavaScript numbers\<close>

text \<open>
  The fleet allocator divides by the truck capacities without checking them, so what it
  returns for a capacity of zero is decided by the arithmetic of JavaScript numbers:
  \<open>x / 0\<close> is an infinity, \<open>x % 0\<close> is NaN, and every comparison with NaN is false.
  A number is therefore a finite value, one of the two infinities, or NaN.  Finite values
  are idealised as reals (no rounding error, no overflow) and there is a single zero; the
  inputs considered below are integers, for which the divisions, remainders and
  comparisons of the source are exact in double precision as well (in particular
  \<open>c * 0.6\<close> compared with an integer, for integers of ordinary size).
\<close>

datatype jsnum = Fin real | PInf | NInf | NaN

abbreviation jsint :: "int \<Rightarrow> jsnum" where
  "jsint n \<equiv> Fin (of_int n)"

fun js_neg :: "jsnum \<Rightarrow> jsnum" where
  "js_neg (Fin x) = Fin (- x)"
| "js_neg PInf = NInf"
| "js_neg NInf = PInf"
| "js_neg NaN = NaN"

fun js_add :: "jsnum \<Rightarrow> jsnum \<Rightarrow> jsnum" where
  "js_add NaN b = NaN"
| "js_add a NaN = NaN"
| "js_add (Fin x) (Fin y) = Fin (x + y)"
| "js_add PInf NInf = NaN"
| "js_add NInf PInf = NaN"
| "js_add PInf b = PInf"
| "js_add NInf b = NInf"
| "js_add (Fin x) b = b"

definition js_sub :: "jsnum \<Rightarrow> jsnum \<Rightarrow> jsnum" where
  "js_sub a b = js_add a (js_neg b)"

text \<open>The sign of a number that is not NaN, used for products and quotients with an infinity.\<close>

fun js_sign :: "jsnum \<Rightarrow> real" where
  "js_sign (Fin x) = sgn x"
| "js_sign PInf = 1"
| "js_sign NInf = - 1"
| "js_sign NaN = 0"

definition js_inf :: "real \<Rightarrow> jsnum" where
  "js_inf s = (if s = 0 then NaN else if 0 < s then PInf else NInf)"

fun js_mul :: "jsnum \<Rightarrow> jsnum \<Rightarrow> jsnum" where
  "js_mul NaN b = NaN"
| "js_mul a NaN = NaN"
| "js_mul (Fin x) (Fin y) = Fin (x * y)"
| "js_mul a b = js_inf (js_sign a * js_sign b)"

fun js_div :: "jsnum \<Rightarrow> jsnum \<Rightarrow> jsnum" where
  "js_div NaN b = NaN"
| "js_div a NaN = NaN"
| "js_div (Fin x) (Fin y) = (if y = 0 then js_inf (sgn x) else Fin (x / y))"
| "js_div (Fin x) b = Fin 0"
| "js_div a (Fin y) = js_inf (js_sign a * (if y < 0 then - 1 else 1))"
| "js_div a b = NaN"

text \<open>
  \<open>a % b\<close>: the remainder of the division truncated towards zero, with the sign of the
  dividend; NaN when the dividend is infinite or the divisor is zero.
\<close>

definition js_trunc :: "real \<Rightarrow> int" where
  "js_trunc x = (if 0 \<le> x then \<lfloor>x\<rfloor> else \<lceil>x\<rceil>)"

fun js_rem :: "jsnum \<Rightarrow> jsnum \<Rightarrow> jsnum" where
  "js_rem NaN b = NaN"
| "js_rem a NaN = NaN"
| "js_rem (Fin x) (Fin y) = (if y = 0 then NaN else Fin (x - y * of_int (js_trunc (x / y))))"
| "js_rem (Fin x) b = Fin x"
| "js_rem a b = NaN"

fun js_floor :: "jsnum \<Rightarrow> jsnum" where
  "js_floor (Fin x) = Fin (of_int \<lfloor>x\<rfloor>)"
| "js_floor a = a"

fun js_ceil :: "jsnum \<Rightarrow> jsnum" where
  "js_ceil (Fin x) = Fin (of_int \<lceil>x\<rceil>)"
| "js_ceil a = a"

fun js_gt :: "jsnum \<Rightarrow> jsnum \<Rightarrow> bool" where
  "js_gt NaN b = False"
| "js_gt a NaN = False"
| "js_gt (Fin x) (Fin y) = (y < x)"
| "js_gt a PInf = False"
| "js_gt NInf b = False"
| "js_gt a b = True"

fun js_le :: "jsnum \<Rightarrow> jsnum \<Rightarrow> bool" where
  "js_le NaN b = False"
| "js_le a NaN = False"
| "js_le (Fin x) (Fin y) = (x \<le> y)"
| "js_le NInf b = True"
| "js_le a PInf = True"
| "js_le a b = False"

text \<open>\<open>Math.max(a, b)\<close>: NaN as soon as one argument is NaN.\<close>

fun js_max :: "jsnum \<Rightarrow> jsnum \<Rightarrow> jsnum" where
  "js_max NaN b = NaN"
| "js_max a NaN = NaN"
| "js_max a b = (if js_gt a b then a else b)"

text \<open>Truthiness of a number, as \<open>x || 0\<close> and \<open>if (x)\<close> test it: zero and NaN are falsy.\<close>

fun js_truthy :: "jsnum \<Rightarrow> bool" where
  "js_truthy (Fin x) = (x \<noteq> 0)"
| "js_truthy NaN = False"
| "js_truthy a = True"

section \<open>Calendar\<close>

text \<open>
  The forecast reads the calendar through the JavaScript \<open>Date\<close>: \<open>new Date(y, m, d)\<close>
  with a month index \<open>m\<close> counted from 0, \<open>getDay()\<close> (0 is Sunday, 6 is Saturday) and
  \<open>new Date(y, m, 0).getDate()\<close>, the number of days of month \<open>m\<close> counted from 1.
  A date is represented by its day number in the proleptic Gregorian calendar, day 1 being
  Monday 1 January of year 1.  As in ECMAScript a year from 0 to 99 stands for 1900 plus
  that year, a month index outside 0..11 carries into the year, and a day outside the month
  carries into the neighbouring months.  Years are assumed within the range of \<open>Date\<close>.
\<close>

definition js_full_year :: "int \<Rightarrow> int" where
  "js_full_year y = (if 0 \<le> y \<and> y \<le> 99 then 1900 + y else y)"

definition leap_year :: "int \<Rightarrow> bool" where
  "leap_year y = (y mod 4 = 0 \<and> (y mod 100 \<noteq> 0 \<or> y mod 400 = 0))"

definition days_in_month :: "int \<Rightarrow> int \<Rightarrow> int" where
  "days_in_month y m =
     (if m = 2 then (if leap_year y then 29 else 28)
      else if m = 4 \<or> m = 6 \<or> m = 9 \<or> m = 11 then 30
      else 31)"

definition days_before_year :: "int \<Rightarrow> int" where
  "days_before_year y = 365 * (y - 1) + (y - 1) div 4 - (y - 1) div 100 + (y - 1) div 400"

definition days_before_month :: "int \<Rightarrow> int \<Rightarrow> int" where
  "days_before_month y m = sum_list (map (days_in_month y) [1..m - 1])"

definition js_Date :: "int \<Rightarrow> int \<Rightarrow> int \<Rightarrow> int" where
  "js_Date y monthIndex d =
     (let y' = js_full_year y + monthIndex div 12;
          m = monthIndex mod 12 + 1
      in days_before_year y' + days_before_month y' m + d)"

definition getDay :: "int \<Rightarrow> int" where
  "getDay t = t mod 7"

text \<open>
  \<open>new Date(y, m, 0).getDate()\<close>: day 0 of the month with index \<open>m\<close> is the last day of
  the month before it, which is month \<open>m\<close> counted from 1.
\<close>

definition daysInMonth :: "int \<Rightarrow> int \<Rightarrow> int" where
  "daysInMonth y m =
     days_in_month (js_full_year y + (m - 1) div 12) ((m - 1) mod 12 + 1)"

section \<open>Demand forecast\<close>

text \<open>
  The function \<open>calculateForecast\<close> of the component \<open>DemandForecastChart\<close>.  Its numbers
  are idealised as reals (finite inputs, no rounding error, no overflow).  No division of
  the source has a zero divisor: a division by a length is guarded by a test of that length,
  and the denominator of the regression slope is positive for two batches or more
  (\<open>trend_denominator_pos\<close> below), so neither an infinity nor NaN arises.
  \<open>Math.round\<close> rounds to the nearest integer, halves upwards.

  The idealisation matters for one thing only.  In double precision the blend
  \<open>a * 0.7 + b * 0.3\<close> can fall just below the exact value, so that at a tie
  \<open>Math.round\<close> returns one less than the rounding of the exact value
  (\<open>1.5 * 0.7 + 1.5 * 0.3\<close> is \<open>1.4999999999999998\<close>).  The order of the three values
  of a point and the days of the forecast do not depend on it, since subtraction, addition,
  \<open>Math.round\<close> and \<open>Math.max\<close> are monotone on doubles as well.  The value of the
  forecast itself is stated below only for observations that are integer counts, all equal,
  where the blend is within rounding error of that integer and \<open>Math.round\<close> returns
  it.
\<close>

datatype DayTypeFilter = All | Weekday | Weekend

record DailyData =
  day :: int
  "value" :: real
  forecast :: "int option"
  forecastMin :: "int option"
  forecastMax :: "int option"

record MonthMeta =
  year :: int
  month :: int

definition js_round :: "real \<Rightarrow> int" where
  "js_round x = \<lfloor>x + 1 / 2\<rfloor>"

text \<open>Reading \<open>xs[i]\<close>: \<open>undefined\<close> beyond the end of the array.\<close>

definition nth_opt :: "'a list \<Rightarrow> nat \<Rightarrow> 'a option" where
  "nth_opt xs i = (if i < length xs then Some (xs ! i) else None)"

text \<open>The mean \<open>values.reduce((a, b) => a + b, 0) / values.length\<close>.\<close>

definition average :: "real list \<Rightarrow> real" where
  "average values = sum_list values / real (length values)"

definition isWeekend :: "int \<Rightarrow> int \<Rightarrow> int \<Rightarrow> bool" where
  "isWeekend y m d =
     (let dayOfWeek = getDay (js_Date y (m - 1) d)
      in dayOfWeek = 0 \<or> dayOfWeek = 6)"

definition filterByDayType :: "DailyData list \<Rightarrow> int \<Rightarrow> int \<Rightarrow> DayTypeFilter \<Rightarrow> DailyData list" where
  "filterByDayType data y m dayTypeFilter =
     (if dayTypeFilter = All then data
      else filter (\<lambda>d. let isWeekendDay = isWeekend y m (day d)
                       in if dayTypeFilter = Weekend then isWeekendDay
                          else if dayTypeFilter = Weekday then \<not> isWeekendDay
                          else True) data)"

definition filteredHistorical ::
  "DailyData list list \<Rightarrow> MonthMeta list \<Rightarrow> DayTypeFilter \<Rightarrow> DailyData list list" where
  "filteredHistorical historical historicalMeta dayTypeFilter =
     map (\<lambda>(idx, monthData).
            case nth_opt historicalMeta idx of
              Some meta \<Rightarrow> filterByDayType monthData (year meta) (month meta) dayTypeFilter
            | None \<Rightarrow> monthData)
         (enumerate 0 historical)"

definition allValues :: "DailyData list list \<Rightarrow> real list" where
  "allValues filtered = filter (\<lambda>v. 0 < v) (map value (concat filtered))"

definition overallAverage :: "DailyData list list \<Rightarrow> real" where
  "overallAverage filtered =
     (if 0 < length (allValues filtered) then average (allValues filtered) else 0)"

definition monthlyAverages :: "DailyData list list \<Rightarrow> real list" where
  "monthlyAverages filtered =
     map (\<lambda>monthData. let values = filter (\<lambda>v. 0 < v) (map value monthData)
                       in if 0 < length values then average values else 0)
         filtered"

definition trend :: "real list \<Rightarrow> real" where
  "trend averages =
     (if 1 < length averages then
        (let n = real (length averages);
             sumX = (n * (n + 1)) / 2;
             sumY = sum_list averages;
             sumXY = sum_list (map (\<lambda>(idx, val). (real idx + 1) * val) (enumerate 0 averages));
             sumXX = (n * (n + 1) * (2 * n + 1)) / 6
         in (n * sumXY - sumX * sumY) / (n * sumXX - sumX * sumX))
      else 0)"

text \<open>
  The values observed on each day of the week: a bucket is created for the day of the week
  of every observation of a batch that has its meta data, and receives the value when it
  is positive.
\<close>

definition addDay :: "MonthMeta \<Rightarrow> DailyData \<Rightarrow> (int \<rightharpoonup> real list) \<Rightarrow> (int \<rightharpoonup> real list)" where
  "addDay meta d patterns =
     (let dayOfWeek = getDay (js_Date (year meta) (month meta - 1) (day d));
          bucket = (case patterns dayOfWeek of None \<Rightarrow> [] | Some values \<Rightarrow> values)
      in patterns(dayOfWeek \<mapsto> (if 0 < value d then bucket @ [value d] else bucket)))"

definition dayOfWeekPatterns :: "DailyData list list \<Rightarrow> MonthMeta list \<Rightarrow> (int \<rightharpoonup> real list)" where
  "dayOfWeekPatterns filtered historicalMeta =
     fold (\<lambda>(idx, monthData) patterns.
             case nth_opt historicalMeta idx of
               Some meta \<Rightarrow> fold (addDay meta) monthData patterns
             | None \<Rightarrow> patterns)
          (enumerate 0 filtered) Map.empty"

definition dayOfWeekAverages :: "(int \<rightharpoonup> real list) \<Rightarrow> real \<Rightarrow> (int \<rightharpoonup> real)" where
  "dayOfWeekAverages patterns overall =
     (\<lambda>dow. case patterns dow of
               None \<Rightarrow> None
             | Some values \<Rightarrow> Some (if 0 < length values then average values else overall))"

definition stdDev :: "real list \<Rightarrow> real \<Rightarrow> real" where
  "stdDev values overall =
     (if 1 < length values
      then sqrt (sum_list (map (\<lambda>val. (val - overall) ^ 2) values) / real (length values))
      else overall * (2 / 10))"

text \<open>The point pushed for a day of the forecast month that passes the filter.\<close>

definition forecastPoint ::
  "DailyData list list \<Rightarrow> MonthMeta list \<Rightarrow> int \<Rightarrow> int \<Rightarrow> DailyData" where
  "forecastPoint filtered historicalMeta dayOfWeek d =
     (let overall = overallAverage filtered;
          baseForecast = overall + trend (monthlyAverages filtered) * (real (length filtered) + 1);
          forecastValue =
            (case dayOfWeekAverages (dayOfWeekPatterns filtered historicalMeta) overall dayOfWeek of
               Some a \<Rightarrow> if a \<noteq> 0 then a * (7 / 10) + baseForecast * (3 / 10) else baseForecast
             | None \<Rightarrow> baseForecast);
          sd = stdDev (allValues filtered) overall
      in \<lparr> day = d, value = 0,
           forecast = Some (max 0 (js_round forecastValue)),
           forecastMin = Some (max 0 (js_round (forecastValue - sd))),
           forecastMax = Some (max 0 (js_round (forecastValue + sd))) \<rparr>)"

text \<open>The loop \<open>for (let day = 1; day <= daysInForecastMonth; day++)\<close>, from day \<open>d\<close> on.\<close>

function forecastLoop ::
  "DailyData list list \<Rightarrow> MonthMeta list \<Rightarrow> DayTypeFilter \<Rightarrow> int \<Rightarrow> int \<Rightarrow> int \<Rightarrow> int
     \<Rightarrow> DailyData list" where
  "forecastLoop filtered historicalMeta dayTypeFilter forecastYear forecastMonth
       daysInForecastMonth d =
     (if d \<le> daysInForecastMonth then
        (let dayOfWeek = getDay (js_Date forecastYear (forecastMonth - 1) d);
             isWeekendDay = (dayOfWeek = 0 \<or> dayOfWeek = 6)
         in if dayTypeFilter = Weekend \<and> \<not> isWeekendDay then
              forecastLoop filtered historicalMeta dayTypeFilter forecastYear forecastMonth
                daysInForecastMonth (d + 1)
            else if dayTypeFilter = Weekday \<and> isWeekendDay then
              forecastLoop filtered historicalMeta dayTypeFilter forecastYear forecastMonth
                daysInForecastMonth (d + 1)
            else
              forecastPoint filtered historicalMeta dayOfWeek d
                # forecastLoop filtered historicalMeta dayTypeFilter forecastYear forecastMonth
                    daysInForecastMonth (d + 1))
      else [])"
  by pat_completeness auto
termination
  by (relation "measure (\<lambda>(filtered, historicalMeta, dayTypeFilter, forecastYear, forecastMonth,
                           daysInForecastMonth, d). nat (daysInForecastMonth + 1 - d))") auto

declare forecastLoop.simps [simp del]

definition calculateForecast ::
  "DailyData list list \<Rightarrow> MonthMeta list \<Rightarrow> DayTypeFilter \<Rightarrow> int \<Rightarrow> int \<Rightarrow> DailyData list" where
  "calculateForecast historical historicalMeta dayTypeFilter targetYear targetMonth =
     (if length historical = 0 then []
      else forecastLoop (filteredHistorical historical historicalMeta dayTypeFilter) historicalMeta
             dayTypeFilter targetYear targetMonth (daysInMonth targetYear targetMonth) 1)"

text \<open>
  An invariant of the day-of-week buckets, for histories whose observations all have the
  value \<open>v\<close>: every value collected in a bucket is \<open>v\<close>.
\<close>

definition buckets_const :: "real \<Rightarrow> (int \<rightharpoonup> real list) \<Rightarrow> bool" where
  "buckets_const v patterns = (\<forall>dow values. patterns dow = Some values \<longrightarrow> (\<forall>x \<in> set values. x = v))"

section \<open>Fleet allocation\<close>

text \<open>
  The component \<open>FleetDemandForecast\<close> and its effect \<open>calculateFleetRequirements\<close>.
  The numbers it receives are integers: the forecast of a day is the result of
  \<open>Math.round\<close>, the capacities are package counts per truck, and a manual assignment
  is stored by \<open>handleManualAssignment\<close> as \<open>parseInt(value) || 0\<close>.  Optional fields of
  the interfaces are options.
\<close>

datatype Strategy = Cost | Capacity

text \<open>
  The heuristic recommendation \<open>(regularTrucks, largeTrucks)\<close> for a day with
  \<open>packages\<close> packages: the two branches on \<open>optimizationStrategy\<close>.
\<close>

definition recommend :: "Strategy \<Rightarrow> bool \<Rightarrow> jsnum \<Rightarrow> jsnum \<Rightarrow> jsnum \<Rightarrow> jsnum \<times> jsnum" where
  "recommend optimizationStrategy useLargeTrucks regularTruckCapacity largeTruckCapacityMax packages =
     (if optimizationStrategy = Cost then
        (let regularTrucks = js_floor (js_div packages regularTruckCapacity);
             remainingPackages = js_rem packages regularTruckCapacity
         in if js_gt remainingPackages (Fin 0) then
              (if useLargeTrucks \<and> js_le remainingPackages largeTruckCapacityMax then
                 (let regularTruckCost = js_div remainingPackages regularTruckCapacity
                  in if js_gt remainingPackages (js_mul regularTruckCapacity (Fin (6 / 10)))
                        \<or> js_gt regularTruckCost (Fin 1)
                     then (regularTrucks, Fin 1)
                     else (js_add regularTrucks (Fin 1), Fin 0))
               else (js_add regularTrucks (Fin 1), Fin 0))
            else (regularTrucks, Fin 0))
      else if useLargeTrucks then
        (let largeTrucks = js_floor (js_div packages largeTruckCapacityMax);
             remainingPackages = js_rem packages largeTruckCapacityMax
         in if js_gt remainingPackages (Fin 0) then
              (if js_le remainingPackages regularTruckCapacity then (Fin 1, largeTrucks)
               else (Fin 0, js_add largeTrucks (Fin 1)))
            else (Fin 0, largeTrucks))
      else (js_ceil (js_div packages regularTruckCapacity), Fin 0))"

text \<open>
  The cost branch with the condition the specification keeps: only
  \<open>remainder > 0.6 \<times> regularCapacity\<close>, without the disjunct on \<open>regularTruckCost\<close>.
\<close>

definition recommend_simplified ::
  "Strategy \<Rightarrow> bool \<Rightarrow> jsnum \<Rightarrow> jsnum \<Rightarrow> jsnum \<Rightarrow> jsnum \<times> jsnum" where
  "recommend_simplified optimizationStrategy useLargeTrucks regularTruckCapacity
       largeTruckCapacityMax packages =
     (if optimizationStrategy = Cost then
        (let regularTrucks = js_floor (js_div packages regularTruckCapacity);
             remainingPackages = js_rem packages regularTruckCapacity
         in if js_gt remainingPackages (Fin 0) then
              (if useLargeTrucks \<and> js_le remainingPackages largeTruckCapacityMax then
                 (if js_gt remainingPackages (js_mul regularTruckCapacity (Fin (6 / 10)))
                  then (regularTrucks, Fin 1)
                  else (js_add regularTrucks (Fin 1), Fin 0))
               else (js_add regularTrucks (Fin 1), Fin 0))
            else (regularTrucks, Fin 0))
      else recommend optimizationStrategy useLargeTrucks regularTruckCapacity
             largeTruckCapacityMax packages)"

record DailyForecastData =
  day :: int
  forecast :: "int option"
  forecastMin :: "int option"
  forecastMax :: "int option"

record ManualAssignment =
  regular :: int
  large :: int

record FleetRequirement =
  day :: int
  packages :: int
  regularTrucks :: jsnum
  largeTrucks :: jsnum
  totalTrucks :: jsnum
  regularCapacity :: jsnum
  largeCapacity :: jsnum
  totalCapacity :: jsnum
  assignedRegularTrucks :: "jsnum option"
  assignedLargeTrucks :: "jsnum option"
  remainingPackages :: "jsnum option"

text \<open>
  The choice of the days to process, from the selected terminal (a string, truthy when
  not empty), the selected day and the data fetched for the terminal.
\<close>

definition dataToProcess ::
  "string \<Rightarrow> int option \<Rightarrow> DailyForecastData option \<Rightarrow> DailyForecastData list
     \<Rightarrow> DailyForecastData list" where
  "dataToProcess selectedTerminal selectedDay terminalSpecificData forecastData =
     (case (selectedTerminal \<noteq> [], selectedDay, terminalSpecificData) of
        (True, Some sd, Some t) \<Rightarrow> [t]
      | (True, None, Some t) \<Rightarrow> forecastData
      | (_, Some sd, _) \<Rightarrow>
          (case List.find (\<lambda>d. DailyForecastData.day d = sd) forecastData of
             Some dayData \<Rightarrow> [dayData]
           | None \<Rightarrow> [])
      | (_, None, _) \<Rightarrow> forecastData)"

text \<open>The body of the \<open>forEach\<close>: the requirement pushed for one day.\<close>

definition fleetRequirement ::
  "Strategy \<Rightarrow> bool \<Rightarrow> int \<Rightarrow> int \<Rightarrow> (int \<rightharpoonup> ManualAssignment) \<Rightarrow> DailyForecastData
     \<Rightarrow> FleetRequirement" where
  "fleetRequirement optimizationStrategy useLargeTrucks regularTruckCapacity largeTruckCapacityMax
       manualAssignments dayData =
     (let packages = (case forecast dayData of Some f \<Rightarrow> f | None \<Rightarrow> 0)
      in if packages = 0 then
           \<lparr> day = DailyForecastData.day dayData, packages = 0,
             regularTrucks = Fin 0, largeTrucks = Fin 0, totalTrucks = Fin 0,
             regularCapacity = Fin 0, largeCapacity = Fin 0, totalCapacity = Fin 0,
             assignedRegularTrucks = None, assignedLargeTrucks = None,
             remainingPackages = None \<rparr>
         else
           (let (regularTrucks, largeTrucks) =
                  recommend optimizationStrategy useLargeTrucks (jsint regularTruckCapacity)
                    (jsint largeTruckCapacityMax) (jsint packages);
                regularCapacity = js_mul regularTrucks (jsint regularTruckCapacity);
                largeCapacity = js_mul largeTrucks (jsint largeTruckCapacityMax);
                totalCapacity = js_add regularCapacity largeCapacity;
                totalTrucks = js_add regularTrucks largeTrucks;
                manual = manualAssignments (DailyForecastData.day dayData);
                assignedRegularTrucks =
                  (case manual of Some m \<Rightarrow> jsint (regular m) | None \<Rightarrow> regularTrucks);
                assignedLargeTrucks =
                  (case manual of Some m \<Rightarrow> jsint (large m) | None \<Rightarrow> largeTrucks);
                assignedCapacity =
                  js_add (js_mul assignedRegularTrucks (jsint regularTruckCapacity))
                         (js_mul assignedLargeTrucks (jsint largeTruckCapacityMax));
                finalRemainingPackages = js_max (Fin 0) (js_sub (jsint packages) assignedCapacity)
            in \<lparr> day = DailyForecastData.day dayData, packages = packages,
                 regularTrucks = regularTrucks, largeTrucks = largeTrucks,
                 totalTrucks = totalTrucks, regularCapacity = regularCapacity,
                 largeCapacity = largeCapacity, totalCapacity = totalCapacity,
                 assignedRegularTrucks = Some assignedRegularTrucks,
                 assignedLargeTrucks = Some assignedLargeTrucks,
                 remainingPackages = Some finalRemainingPackages \<rparr>))"

definition calculateFleetRequirements ::
  "Strategy \<Rightarrow> bool \<Rightarrow> int \<Rightarrow> int \<Rightarrow> (int \<rightharpoonup> ManualAssignment) \<Rightarrow> string \<Rightarrow> int option
     \<Rightarrow> DailyForecastData option \<Rightarrow> DailyForecastData list \<Rightarrow> FleetRequirement list" where
  "calculateFleetRequirements optimizationStrategy useLargeTrucks regularTruckCapacity
       largeTruckCapacityMax manualAssignments selectedTerminal selectedDay terminalSpecificData
       forecastData =
     map (fleetRequirement optimizationStrategy useLargeTrucks regularTruckCapacity
            largeTruckCapacityMax manualAssignments)
         (dataToProcess selectedTerminal selectedDay terminalSpecificData forecastData)"

text \<open>
  How the summary and the chart read the optional fields of a requirement:
  \<open>r.remainingPackages || 0\<close> and
  \<open>r.assignedRegularTrucks !== undefined ? r.assignedRegularTrucks : r.regularTrucks\<close>.
\<close>

definition remainingOf :: "FleetRequirement \<Rightarrow> jsnum" where
  "remainingOf r =
     (case remainingPackages r of Some x \<Rightarrow> (if js_truthy x then x else Fin 0) | None \<Rightarrow> Fin 0)"

definition assignedRegularOf :: "FleetRequirement \<Rightarrow> jsnum" where
  "assignedRegularOf r =
     (case assignedRegularTrucks r of Some x \<Rightarrow> x | None \<Rightarrow> regularTrucks r)"

definition assignedLargeOf :: "FleetRequirement \<Rightarrow> jsnum" where
  "assignedLargeOf r =
     (case assignedLargeTrucks r of Some x \<Rightarrow> x | None \<Rightarrow> largeTrucks r)"

section \<open>Consistency of the calendar\<close>

lemma div_step:
  assumes "0 < (c::int)"
  shows "y div c = (y - 1) div c + (if y mod c = 0 then 1 else 0)"
proof (cases "y mod c = 0")
  case True
  have "c * (y div c) + y mod c = y" by (rule mult_div_mod_eq)
  then have "y = c * (y div c)" using True by simp
  then have "y - 1 = c * (y div c - 1) + (c - 1)"
    by (simp add: algebra_simps)
  then have "(y - 1) div c = y div c - 1"
    by (rule int_div_pos_eq) (use assms in simp_all)
  then show ?thesis using True by simp
next
  case False
  have "0 \<le> y mod c" "y mod c < c" using assms by simp_all
  then have r: "0 \<le> y mod c - 1" "y mod c - 1 < c" using False by simp_all
  have "c * (y div c) + y mod c = y" by (rule mult_div_mod_eq)
  then have "y - 1 = c * (y div c) + (y mod c - 1)"
    by simp
  then have "(y - 1) div c = y div c"
    by (rule int_div_pos_eq) (use r in simp_all)
  then show ?thesis using False by simp
qed

lemma days_before_year_step:
  "days_before_year (y + 1) = days_before_year y + (if leap_year y then 366 else 365)"
proof -
  define m4 m100 m400 where "m4 = (y mod 4 = 0)" and "m100 = (y mod 100 = 0)"
    and "m400 = (y mod 400 = 0)"
  define p4 p100 p400 where "p4 = (y - 1) div 4" and "p100 = (y - 1) div 100"
    and "p400 = (y - 1) div 400"
  define q4 q100 q400 where "q4 = y div 4" and "q100 = y div 100" and "q400 = y div 400"
  have 4: "q4 = p4 + (if m4 then 1 else 0)"
    unfolding q4_def p4_def m4_def by (rule div_step) simp
  have 100: "q100 = p100 + (if m100 then 1 else 0)"
    unfolding q100_def p100_def m100_def by (rule div_step) simp
  have 400: "q400 = p400 + (if m400 then 1 else 0)"
    unfolding q400_def p400_def m400_def by (rule div_step) simp
  have "(4::int) dvd 100" and "(100::int) dvd 400" by simp_all
  then have a: "m100 \<Longrightarrow> m4" and b: "m400 \<Longrightarrow> m100"
    unfolding m4_def m100_def m400_def mod_eq_0_iff_dvd by (blast intro: dvd_trans)+
  have leap: "leap_year y = (m4 \<and> (\<not> m100 \<or> m400))"
    by (simp only: leap_year_def m4_def m100_def m400_def)
  have "y + 1 - 1 = y" by simp
  then have next_year: "days_before_year (y + 1) = 365 * y + q4 - q100 + q400"
    by (simp only: days_before_year_def q4_def q100_def q400_def)
  have this_year: "days_before_year y = 365 * (y - 1) + p4 - p100 + p400"
    by (simp only: days_before_year_def p4_def p100_def p400_def)
  show ?thesis
    unfolding next_year this_year leap 4 100 400
    using a b by (cases m4; cases m100; cases m400) simp_all
qed


lemma days_before_month_step:
  assumes "1 \<le> k"
  shows "days_before_month y (k + 1) = days_before_month y k + days_in_month y k"
proof -
  have "[1..k + 1 - 1] = [1..k - 1] @ [k]"
    using assms upto_rec2 [of 1 k] by simp
  then show ?thesis
    by (simp only: days_before_month_def map_append sum_list_append list.map sum_list.Cons
          sum_list.Nil add_0_right)
qed

lemma days_before_month_first: "days_before_month y 1 = 0"
  by (simp add: days_before_month_def)

lemma days_of_year:
  "days_before_month y 12 + days_in_month y 12 = (if leap_year y then 366 else 365)"
proof -
  have "[1..12 - 1] = [1, 2, 3, 4, 5, 6, 7, 8, 9, 10, 11 :: int]"
    by (simp add: upto_rec1)
  then show ?thesis
    by (simp add: days_before_month_def days_in_month_def)
qed

text \<open>
  The length of a month as the source reads it agrees with the day numbers: day 0 of the
  month with index \<open>m\<close> is the day numbered \<open>daysInMonth y m\<close> of the month before it.
\<close>

lemma day_zero_is_last_day:
  "js_Date y m 0 = js_Date y (m - 1) (daysInMonth y m)"
proof -
  define k q where "k = (m - 1) mod 12" and "q = (m - 1) div 12"
  define Y where "Y = js_full_year y + q"
  have k: "0 \<le> k" "k < 12"
    unfolding k_def by simp_all
  have "12 * q + k = m - 1"
    unfolding k_def q_def by (rule mult_div_mod_eq)
  then have m: "m = 12 * q + (k + 1)" by simp
  have rhs: "js_Date y (m - 1) (daysInMonth y m)
               = days_before_year Y + days_before_month Y (k + 1) + days_in_month Y (k + 1)"
    by (simp only: js_Date_def daysInMonth_def Let_def k_def q_def Y_def)
  show ?thesis
  proof (cases "k = 11")
    case True
    then have "m = 12 * (q + 1) + 0" using m by simp
    then have "m div 12 = q + 1" and "m mod 12 = 0"
      by (rule int_div_pos_eq int_mod_pos_eq; simp)+
    then have "js_Date y m 0 = days_before_year (Y + 1) + days_before_month (Y + 1) (0 + 1) + 0"
      by (simp only: js_Date_def Let_def Y_def add.assoc)
    also have "\<dots> = days_before_year Y + (if leap_year Y then 366 else 365)"
      by (simp only: days_before_year_step days_before_month_first add_0 add_0_right)
    also have "\<dots> = days_before_year Y + days_before_month Y 12 + days_in_month Y 12"
      by (simp only: days_of_year [symmetric] add.assoc)
    finally show ?thesis
      unfolding rhs using True by simp
  next
    case False
    then have k1: "0 \<le> k + 1" "k + 1 < 12" using k by simp_all
    from m have "m div 12 = q" and "m mod 12 = k + 1"
      by (rule int_div_pos_eq int_mod_pos_eq; use k1 in simp)+
    then have "js_Date y m 0 = days_before_year Y + days_before_month Y (k + 1 + 1) + 0"
      by (simp only: js_Date_def Let_def Y_def)
    also have "\<dots> = days_before_year Y + days_before_month Y (k + 1) + days_in_month Y (k + 1)"
      using days_before_month_step [of "k + 1" Y] k by simp
    finally show ?thesis
      unfolding rhs .
  qed
qed

section \<open>Integer inputs of the allocator\<close>

lemma js_floor_div_int:
  "c \<noteq> 0 \<Longrightarrow> js_floor (js_div (jsint p) (jsint c)) = jsint (p div c)"
  by (simp add: floor_divide_of_int_eq)

lemma js_ceil_div_int:
  "c \<noteq> 0 \<Longrightarrow> js_ceil (js_div (jsint p) (jsint c)) = jsint \<lceil>of_int p / (of_int c :: real)\<rceil>"
  by simp

lemma js_rem_int:
  assumes "0 \<le> p" and "0 < c"
  shows "js_rem (jsint p) (jsint c) = jsint (p mod c)"
proof -
  have "0 \<le> (of_int p :: real) / of_int c"
    using assms by simp
  then have "js_trunc (of_int p / of_int c) = p div c"
    by (simp add: js_trunc_def floor_divide_of_int_eq)
  moreover have "(of_int p :: real) - of_int c * of_int (p div c) = of_int (p mod c)"
    by (simp add: minus_mult_div_eq_mod flip: of_int_mult of_int_diff)
  ultimately show ?thesis
    using assms by simp
qed

lemma js_gt_threshold:
  "js_gt (jsint r) (js_mul (jsint c) (Fin (6 / 10))) \<longleftrightarrow> 3 * c < 5 * r"
proof -
  have "(of_int c :: real) * (6 / 10) < of_int r \<longleftrightarrow> (of_int (3 * c) :: real) < of_int (5 * r)"
    by (simp add: mult.commute)
  also have "\<dots> \<longleftrightarrow> 3 * c < 5 * r"
    by (simp only: of_int_less_iff)
  finally show ?thesis by simp
qed

lemma js_cost_below_one:
  assumes "0 \<le> r" and "r < c"
  shows "\<not> js_gt (js_div (jsint r) (jsint c)) (Fin 1)"
  using assms by simp

lemma recommend_cost_int:
  assumes "0 < p" and "0 < rc"
  shows "recommend Cost u (jsint rc) (jsint lc) (jsint p) =
           (if p mod rc = 0 then (jsint (p div rc), Fin 0)
            else if u \<and> p mod rc \<le> lc \<and> 3 * rc < 5 * (p mod rc) then (jsint (p div rc), Fin 1)
            else (jsint (p div rc + 1), Fin 0))"
proof -
  have r0: "0 \<le> p mod rc" and r1: "p mod rc < rc"
    using assms by simp_all
  have nz: "rc \<noteq> 0" using assms by simp
  have "0 \<le> p" using assms by simp
  note rem = js_rem_int [OF this assms(2)]
  show ?thesis
    unfolding recommend_def Let_def rem js_floor_div_int [OF nz] js_gt_threshold
    using js_cost_below_one [OF r0 r1] r0 by auto
qed

lemma recommend_capacity_large_int:
  assumes "0 < p" and "0 < lc"
  shows "recommend Capacity True (jsint rc) (jsint lc) (jsint p) =
           (if p mod lc = 0 then (Fin 0, jsint (p div lc))
            else if p mod lc \<le> rc then (Fin 1, jsint (p div lc))
            else (Fin 0, jsint (p div lc + 1)))"
proof -
  have r0: "0 \<le> p mod lc"
    using assms by simp
  have nz: "lc \<noteq> 0" using assms by simp
  have "0 \<le> p" using assms by simp
  note rem = js_rem_int [OF this assms(2)]
  show ?thesis
    unfolding recommend_def Let_def rem js_floor_div_int [OF nz]
    using r0 by auto
qed

lemma recommend_capacity_regular_int:
  assumes "rc \<noteq> 0"
  shows "recommend Capacity False (jsint rc) (jsint lc) (jsint p) =
           (jsint \<lceil>of_int p / (of_int rc :: real)\<rceil>, Fin 0)"
  unfolding recommend_def using assms by simp

lemma js_trunc_frac: "\<bar>x - of_int (js_trunc x)\<bar> < 1"
  unfolding js_trunc_def by (auto; linarith)

lemma js_rem_cost_dead:
  "\<not> (js_gt (js_rem p c) (Fin 0) \<and> js_gt (js_div (js_rem p c) c) (Fin 1))"
proof (cases p)
  case (Fin x)
  show ?thesis
  proof (cases c)
    case c: (Fin y)
    show ?thesis
    proof (cases "y = 0")
      case True
      then show ?thesis using Fin c by simp
    next
      case False
      have "(x - y * of_int (js_trunc (x / y))) / y = x / y - of_int (js_trunc (x / y))"
        using False by (simp add: diff_divide_distrib)
      moreover have "x / y - of_int (js_trunc (x / y)) < 1"
        using js_trunc_frac [of "x / y"] by linarith
      ultimately show ?thesis using Fin c False by simp
    qed
  qed (use Fin in simp_all)
qed (cases c; simp)+

lemma recommend_simplified_eq:
  "recommend s u c l p = recommend_simplified s u c l p"
  using js_rem_cost_dead [of p c]
  by (auto simp: recommend_def recommend_simplified_def Let_def)

lemma ceiling_div_bounds:
  assumes "0 < p" and "0 < rc"
  shows "0 \<le> \<lceil>of_int p / (of_int rc :: real)\<rceil>"
    and "p \<le> \<lceil>of_int p / (of_int rc :: real)\<rceil> * rc"
proof -
  let ?q = "of_int p / (of_int rc :: real)"
  have "0 \<le> ?q" using assms by simp
  then show "0 \<le> \<lceil>?q\<rceil>" by (simp add: zero_le_ceiling)
  have "?q \<le> of_int \<lceil>?q\<rceil>" by (rule le_of_int_ceiling)
  moreover have "0 < (of_int rc :: real)" using assms by simp
  ultimately have "of_int p \<le> of_int \<lceil>?q\<rceil> * (of_int rc :: real)"
    by (simp only: pos_divide_le_eq)
  then have "(of_int p :: real) \<le> of_int (\<lceil>?q\<rceil> * rc)" by simp
  then show "p \<le> \<lceil>?q\<rceil> * rc" by (simp only: of_int_le_iff)
qed

lemma div_mult_succ_ge:
  assumes "0 < (c::int)"
  shows "p \<le> (p div c + 1) * c"
proof -
  have "p = p div c * c + p mod c" by simp
  moreover have "p mod c < c" using assms by simp
  moreover have "(p div c + 1) * c = p div c * c + c" by (simp add: algebra_simps)
  ultimately show ?thesis by linarith
qed

lemma recommend_int:
  assumes "0 < p" and "0 < rc" and "0 < lc"
  shows "\<exists>a b. 0 \<le> a \<and> 0 \<le> b \<and> p \<le> a * rc + b * lc
           \<and> recommend s u (jsint rc) (jsint lc) (jsint p) = (jsint a, jsint b)"
proof -
  have d1: "0 \<le> p div rc" and d2: "0 \<le> p div lc"
    using assms by (simp_all add: pos_imp_zdiv_nonneg_iff)
  have e1: "p = p div rc * rc + p mod rc" and e2: "p = p div lc * lc + p mod lc"
    by simp_all
  show ?thesis
  proof (cases s)
    case Cost
    consider (exact) "p mod rc = 0"
      | (large) "p mod rc \<noteq> 0" "u \<and> p mod rc \<le> lc \<and> 3 * rc < 5 * (p mod rc)"
      | (regular) "p mod rc \<noteq> 0" "\<not> (u \<and> p mod rc \<le> lc \<and> 3 * rc < 5 * (p mod rc))"
      by blast
    then show ?thesis
    proof cases
      case exact
      then have "p \<le> p div rc * rc + 0 * lc" using e1 by simp
      moreover have "recommend s u (jsint rc) (jsint lc) (jsint p) = (jsint (p div rc), jsint 0)"
        using exact Cost recommend_cost_int [OF assms(1,2)] by simp
      ultimately show ?thesis using d1 by (metis order_refl)
    next
      case large
      then have "p \<le> p div rc * rc + 1 * lc" using e1 by linarith
      moreover have "recommend s u (jsint rc) (jsint lc) (jsint p) = (jsint (p div rc), jsint 1)"
        using large Cost recommend_cost_int [OF assms(1,2)] by simp
      ultimately show ?thesis using d1 by (metis zero_le_one)
    next
      case regular
      have "p \<le> (p div rc + 1) * rc + 0 * lc"
        using div_mult_succ_ge [OF assms(2)] by simp
      moreover have "recommend s u (jsint rc) (jsint lc) (jsint p) = (jsint (p div rc + 1), jsint 0)"
        using regular Cost recommend_cost_int [OF assms(1,2), of u lc] by auto
      moreover have "0 \<le> p div rc + 1" using d1 by simp
      ultimately show ?thesis by (metis order_refl)
    qed
  next
    case Capacity
    show ?thesis
    proof (cases u)
      case False
      have "recommend s u (jsint rc) (jsint lc) (jsint p)
              = (jsint \<lceil>of_int p / (of_int rc :: real)\<rceil>, jsint 0)"
        using False Capacity assms recommend_capacity_regular_int [of rc lc p] by simp
      moreover have "p \<le> \<lceil>of_int p / (of_int rc :: real)\<rceil> * rc + 0 * lc"
        using ceiling_div_bounds(2) [OF assms(1,2)] by simp
      ultimately show ?thesis
        using ceiling_div_bounds(1) [OF assms(1,2)] by (metis order_refl)
    next
      case True
      consider (exact) "p mod lc = 0"
        | (regular) "p mod lc \<noteq> 0" "p mod lc \<le> rc"
        | (large) "p mod lc \<noteq> 0" "\<not> p mod lc \<le> rc"
        by blast
      then show ?thesis
      proof cases
        case exact
        then have "p \<le> 0 * rc + p div lc * lc" using e2 by simp
        moreover have "recommend s u (jsint rc) (jsint lc) (jsint p) = (jsint 0, jsint (p div lc))"
          using exact True Capacity recommend_capacity_large_int [OF assms(1,3)] by simp
        ultimately show ?thesis using d2 by (metis order_refl)
      next
        case regular
        then have "p \<le> 1 * rc + p div lc * lc" using e2 by linarith
        moreover have "recommend s u (jsint rc) (jsint lc) (jsint p) = (jsint 1, jsint (p div lc))"
          using regular True Capacity recommend_capacity_large_int [OF assms(1,3)] by simp
        ultimately show ?thesis using d2 by (metis zero_le_one)
      next
        case large
        have "p \<le> 0 * rc + (p div lc + 1) * lc"
          using div_mult_succ_ge [OF assms(3)] by simp
        moreover have "recommend s u (jsint rc) (jsint lc) (jsint p) = (jsint 0, jsint (p div lc + 1))"
          using large True Capacity recommend_capacity_large_int [OF assms(1,3)] by simp
        moreover have "0 \<le> p div lc + 1" using d2 by simp
        ultimately show ?thesis by (metis order_refl)
      qed
    qed
  qed
qed

lemma js_max_int: "js_max (Fin 0) (jsint x) = jsint (max 0 x)"
  by (simp add: max_def)

lemma js_sub_int: "js_sub (jsint x) (jsint y) = jsint (x - y)"
  by (simp add: js_sub_def)

lemma js_add_int: "js_add (jsint x) (jsint y) = jsint (x + y)"
  by simp

lemma js_mul_int: "js_mul (jsint x) (jsint y) = jsint (x * y)"
  by simp

lemma fleetRequirement_int:
  assumes "forecast d = Some p" and "p \<noteq> 0"
    and "recommend s u (jsint rc) (jsint lc) (jsint p) = (jsint a, jsint b)"
  shows "fleetRequirement s u rc lc m d =
           \<lparr> day = DailyForecastData.day d, packages = p,
             regularTrucks = jsint a, largeTrucks = jsint b, totalTrucks = jsint (a + b),
             regularCapacity = jsint (a * rc), largeCapacity = jsint (b * lc),
             totalCapacity = jsint (a * rc + b * lc),
             assignedRegularTrucks =
               Some (jsint (case m (DailyForecastData.day d) of Some x \<Rightarrow> regular x | None \<Rightarrow> a)),
             assignedLargeTrucks =
               Some (jsint (case m (DailyForecastData.day d) of Some x \<Rightarrow> large x | None \<Rightarrow> b)),
             remainingPackages =
               Some (jsint (max 0 (p -
                 ((case m (DailyForecastData.day d) of Some x \<Rightarrow> regular x | None \<Rightarrow> a) * rc
                  + (case m (DailyForecastData.day d) of Some x \<Rightarrow> large x | None \<Rightarrow> b) * lc)))) \<rparr>"
proof -
  define ar where "ar = (case m (DailyForecastData.day d) of Some x \<Rightarrow> regular x | None \<Rightarrow> a)"
  define al where "al = (case m (DailyForecastData.day d) of Some x \<Rightarrow> large x | None \<Rightarrow> b)"
  have ar: "(case m (DailyForecastData.day d) of Some x \<Rightarrow> jsint (regular x) | None \<Rightarrow> jsint a)
              = jsint ar"
    by (simp add: ar_def split: option.split)
  have al: "(case m (DailyForecastData.day d) of Some x \<Rightarrow> jsint (large x) | None \<Rightarrow> jsint b)
              = jsint al"
    by (simp add: al_def split: option.split)
  have "fleetRequirement s u rc lc m d =
           \<lparr> day = DailyForecastData.day d, packages = p,
             regularTrucks = jsint a, largeTrucks = jsint b, totalTrucks = jsint (a + b),
             regularCapacity = jsint (a * rc), largeCapacity = jsint (b * lc),
             totalCapacity = jsint (a * rc + b * lc),
             assignedRegularTrucks = Some (jsint ar),
             assignedLargeTrucks = Some (jsint al),
             remainingPackages = Some (jsint (max 0 (p - (ar * rc + al * lc)))) \<rparr>"
    unfolding fleetRequirement_def Let_def assms(1) option.case assms(3) prod.case ar al
      js_mul_int js_add_int js_sub_int js_max_int
    using assms(2) by simp
  then show ?thesis
    unfolding ar_def al_def .
qed

section \<open>Properties of the fleet allocation\<close>

text \<open>
  Claim C5.  On a day with \<open>packages > 0\<close>, under the cost strategy with positive
  capacities, the recommendation starts from \<open>packages div regularCapacity\<close> regular
  trucks and the remainder \<open>packages mod regularCapacity\<close>.  A zero remainder adds
  nothing.  A positive remainder adds exactly one large truck when large trucks are enabled,
  the remainder is at most \<open>largeCapacityMax\<close> and it exceeds
  \<open>0.6 \<times> regularCapacity\<close>; in every other case it adds one more regular truck and no
  large truck.  In particular, with capacities 2200 and 2800 and large trucks enabled,
  3000 packages get 2 regular trucks and no large truck, a total capacity of 4400 and,
  without a manual assignment, no remaining package; 2200 packages get 1 regular truck, no
  large truck, and the remainder is 0.
\<close>

theorem cost_strategy_allocation:
  assumes "forecast d = Some p" and "0 < p" and "0 < rc" and "0 < lc"
  shows "regularTrucks (fleetRequirement Cost u rc lc m d) =
           jsint (if p mod rc = 0 then p div rc
                  else if u \<and> p mod rc \<le> lc \<and> (6 / 10) * real_of_int rc < real_of_int (p mod rc)
                       then p div rc
                  else p div rc + 1)
       \<and> largeTrucks (fleetRequirement Cost u rc lc m d) =
           jsint (if p mod rc \<noteq> 0 \<and> u \<and> p mod rc \<le> lc
                     \<and> (6 / 10) * real_of_int rc < real_of_int (p mod rc)
                  then 1 else 0)
       \<and> (p = 3000 \<and> rc = 2200 \<and> lc = 2800 \<and> u \<longrightarrow>
             regularTrucks (fleetRequirement Cost u rc lc m d) = Fin 2
           \<and> largeTrucks (fleetRequirement Cost u rc lc m d) = Fin 0
           \<and> totalCapacity (fleetRequirement Cost u rc lc m d) = Fin 4400
           \<and> (m (DailyForecastData.day d) = None \<longrightarrow>
                 remainingPackages (fleetRequirement Cost u rc lc m d) = Some (Fin 0)))
       \<and> (p = 2200 \<and> rc = 2200 \<and> lc = 2800 \<and> u \<longrightarrow>
             regularTrucks (fleetRequirement Cost u rc lc m d) = Fin 1
           \<and> largeTrucks (fleetRequirement Cost u rc lc m d) = Fin 0
           \<and> p mod rc = 0)"
proof -
  let ?a = "if p mod rc = 0 then p div rc
            else if u \<and> p mod rc \<le> lc \<and> (6 / 10) * real_of_int rc < real_of_int (p mod rc)
                 then p div rc
            else p div rc + 1"
  let ?b = "if p mod rc \<noteq> 0 \<and> u \<and> p mod rc \<le> lc
               \<and> (6 / 10) * real_of_int rc < real_of_int (p mod rc)
            then 1 else (0::int)"
  let ?r = "fleetRequirement Cost u rc lc m d"
  have thr: "(6 / 10) * real_of_int rc < real_of_int (p mod rc) \<longleftrightarrow> 3 * rc < 5 * (p mod rc)"
    using js_gt_threshold [of "p mod rc" rc] by (simp add: mult.commute)
  have rec: "recommend Cost u (jsint rc) (jsint lc) (jsint p) = (jsint ?a, jsint ?b)"
    unfolding recommend_cost_int [OF assms(2,3)] thr by simp
  have "p \<noteq> 0" using assms(2) by simp
  note req = fleetRequirement_int [OF assms(1) this rec, of m]
  have general: "regularTrucks ?r = jsint ?a" "largeTrucks ?r = jsint ?b"
    unfolding req by simp_all
  have s3000: "regularTrucks ?r = Fin 2 \<and> largeTrucks ?r = Fin 0 \<and> totalCapacity ?r = Fin 4400
      \<and> (m (DailyForecastData.day d) = None \<longrightarrow> remainingPackages ?r = Some (Fin 0))"
    if "p = 3000 \<and> rc = 2200 \<and> lc = 2800 \<and> u"
  proof -
    have ab: "?a = 2" "?b = 0" using that by simp_all
    show ?thesis unfolding req ab using that by simp
  qed
  have s2200: "regularTrucks ?r = Fin 1 \<and> largeTrucks ?r = Fin 0 \<and> p mod rc = 0"
    if "p = 2200 \<and> rc = 2200 \<and> lc = 2800 \<and> u"
  proof -
    have ab: "?a = 1" "?b = 0" using that by simp_all
    show ?thesis unfolding req ab using that by simp
  qed
  from general s3000 s2200 show ?thesis by blast
qed

theorem cost_strategy_allocation_witness:
  "(let d = \<lparr> DailyForecastData.day = 1, forecast = Some 3000, forecastMin = None, forecastMax = None \<rparr>;
        r = fleetRequirement Cost True 2200 2800 Map.empty d
    in forecast d = Some 3000 \<and> (0::int) < 3000 \<and> (0::int) < 2200 \<and> (0::int) < 2800
       \<and> regularTrucks r = Fin 2 \<and> largeTrucks r = Fin 0 \<and> totalCapacity r = Fin 4400
       \<and> remainingPackages r = Some (Fin 0))
   \<and> (let d = \<lparr> DailyForecastData.day = 1, forecast = Some 2200, forecastMin = None, forecastMax = None \<rparr>;
          r = fleetRequirement Cost True 2200 2800 Map.empty d
      in forecast d = Some 2200 \<and> (0::int) < 2200 \<and> (0::int) < 2800
         \<and> regularTrucks r = Fin 1 \<and> largeTrucks r = Fin 0
         \<and> js_rem (jsint 2200) (jsint 2200) = Fin 0)
   \<and> (let d = \<lparr> DailyForecastData.day = 1, forecast = Some 3600, forecastMin = None, forecastMax = None \<rparr>;
          r = fleetRequirement Cost True 2200 2800 Map.empty d
      in forecast d = Some 3600 \<and> regularTrucks r = Fin 1 \<and> largeTrucks r = Fin 1)"
  using
    cost_strategy_allocation [of "\<lparr> DailyForecastData.day = 1, forecast = Some 3000, forecastMin = None, forecastMax = None \<rparr>"
      3000 2200 2800 True Map.empty]
    cost_strategy_allocation [of "\<lparr> DailyForecastData.day = 1, forecast = Some 2200, forecastMin = None, forecastMax = None \<rparr>"
      2200 2200 2800 True Map.empty]
    cost_strategy_allocation [of "\<lparr> DailyForecastData.day = 1, forecast = Some 3600, forecastMin = None, forecastMax = None \<rparr>"
      3600 2200 2800 True Map.empty]
  by (simp add: Let_def js_trunc_def)

text \<open>
  Claim C6.  On a day with \<open>packages > 0\<close>, under the capacity strategy with positive
  capacities: with large trucks enabled there are \<open>packages div largeCapacityMax\<close> large
  trucks, and a positive remainder \<open>packages mod largeCapacityMax\<close> takes exactly one
  regular truck when it is at most \<open>regularCapacity\<close> and one more large truck
  otherwise; with large trucks disabled there are \<open>ceil(packages / regularCapacity)\<close>
  regular trucks and no large truck.
\<close>

theorem capacity_strategy_allocation:
  assumes "forecast d = Some p" and "0 < p" and "0 < rc" and "0 < lc"
  shows "regularTrucks (fleetRequirement Capacity u rc lc m d) =
           jsint (if u then (if p mod lc \<noteq> 0 \<and> p mod lc \<le> rc then 1 else 0)
                  else \<lceil>real_of_int p / real_of_int rc\<rceil>)
       \<and> largeTrucks (fleetRequirement Capacity u rc lc m d) =
           jsint (if u then (if p mod lc \<noteq> 0 \<and> \<not> p mod lc \<le> rc then p div lc + 1 else p div lc)
                  else 0)"
proof -
  let ?a = "if u then (if p mod lc \<noteq> 0 \<and> p mod lc \<le> rc then 1 else 0)
            else \<lceil>real_of_int p / real_of_int rc\<rceil>"
  let ?b = "if u then (if p mod lc \<noteq> 0 \<and> \<not> p mod lc \<le> rc then p div lc + 1 else p div lc)
            else 0"
  have "recommend Capacity u (jsint rc) (jsint lc) (jsint p) = (jsint ?a, jsint ?b)"
  proof (cases u)
    case True
    then show ?thesis
      using recommend_capacity_large_int [OF assms(2,4), of rc] by simp
  next
    case False
    then show ?thesis
      using assms(3) recommend_capacity_regular_int [of rc lc p] by simp
  qed
  from fleetRequirement_int [OF assms(1) _ this, of m] assms(2)
  show ?thesis by simp
qed

theorem capacity_strategy_allocation_witness:
  "(let d = \<lparr> DailyForecastData.day = 1, forecast = Some 3000, forecastMin = None, forecastMax = None \<rparr>
    in forecast d = Some 3000 \<and> (0::int) < 3000 \<and> (0::int) < 2200 \<and> (0::int) < 2800
       \<and> regularTrucks (fleetRequirement Capacity True 2200 2800 Map.empty d) = Fin 1
       \<and> largeTrucks (fleetRequirement Capacity True 2200 2800 Map.empty d) = Fin 1
       \<and> regularTrucks (fleetRequirement Capacity False 2200 2800 Map.empty d) = Fin 2
       \<and> largeTrucks (fleetRequirement Capacity False 2200 2800 Map.empty d) = Fin 0)"
  using
    capacity_strategy_allocation [of "\<lparr> DailyForecastData.day = 1, forecast = Some 3000, forecastMin = None, forecastMax = None \<rparr>"
      3000 2200 2800 True Map.empty]
    capacity_strategy_allocation [of "\<lparr> DailyForecastData.day = 1, forecast = Some 3000, forecastMin = None, forecastMax = None \<rparr>"
      3000 2200 2800 False Map.empty]
  by (simp add: Let_def)

text \<open>
  Claim C7 as stated fails on the emitted object: the early return for a day without
  packages pushes an object that has no \<open>remainingPackages\<close> key (nor the two assigned
  fields), so the field of the requirement is undefined, not 0.
\<close>

theorem zero_packages_remaining_omitted:
  "calculateFleetRequirements Cost True 2200 2800 Map.empty [] None None
     [\<lparr> DailyForecastData.day = 1, forecast = Some 0, forecastMin = None, forecastMax = None \<rparr>]
   = [\<lparr> day = 1, packages = 0,
        regularTrucks = Fin 0, largeTrucks = Fin 0, totalTrucks = Fin 0,
        regularCapacity = Fin 0, largeCapacity = Fin 0, totalCapacity = Fin 0,
        assignedRegularTrucks = None, assignedLargeTrucks = None,
        remainingPackages = None \<rparr>]
   \<and> remainingPackages
         (fleetRequirement Cost True 2200 2800 Map.empty
            \<lparr> DailyForecastData.day = 1, forecast = Some 0, forecastMin = None, forecastMax = None \<rparr>)
       \<noteq> Some (Fin 0)"
  by (simp add: calculateFleetRequirements_def dataToProcess_def fleetRequirement_def)

text \<open>
  Claim C7, amended.  A day whose packages are 0 (a forecast of 0, or none:
  \<open>forecast || 0\<close>) gets a requirement with no regular truck, no large truck, no total and
  every capacity field 0, whatever the strategy, the use of large trucks, the capacities
  and the manual assignment of that day.  The optional fields \<open>assignedRegularTrucks\<close>,
  \<open>assignedLargeTrucks\<close> and \<open>remainingPackages\<close> are left out of the object; the
  summary, the chart and the table of the component read the omitted fields as 0 remaining
  packages and 0 assigned trucks.
\<close>

theorem zero_packages_requirement:
  assumes "(case forecast d of Some f \<Rightarrow> f | None \<Rightarrow> 0) = 0"
  shows "fleetRequirement s u rc lc m d =
           \<lparr> day = DailyForecastData.day d, packages = 0,
             regularTrucks = Fin 0, largeTrucks = Fin 0, totalTrucks = Fin 0,
             regularCapacity = Fin 0, largeCapacity = Fin 0, totalCapacity = Fin 0,
             assignedRegularTrucks = None, assignedLargeTrucks = None,
             remainingPackages = None \<rparr>
       \<and> remainingOf (fleetRequirement s u rc lc m d) = Fin 0
       \<and> assignedRegularOf (fleetRequirement s u rc lc m d) = Fin 0
       \<and> assignedLargeOf (fleetRequirement s u rc lc m d) = Fin 0"
  using assms
  by (simp add: fleetRequirement_def remainingOf_def assignedRegularOf_def assignedLargeOf_def)

theorem zero_packages_requirement_witness:
  "(let d = \<lparr> DailyForecastData.day = 7, forecast = Some 0, forecastMin = Some 0, forecastMax = Some 12 \<rparr>;
        r = fleetRequirement Capacity True 2200 2800 [7 \<mapsto> \<lparr> regular = 3, large = 1 \<rparr>] d
    in (case forecast d of Some f \<Rightarrow> f | None \<Rightarrow> 0) = 0
       \<and> regularTrucks r = Fin 0 \<and> largeTrucks r = Fin 0 \<and> totalTrucks r = Fin 0
       \<and> regularCapacity r = Fin 0 \<and> largeCapacity r = Fin 0 \<and> totalCapacity r = Fin 0
       \<and> remainingOf r = Fin 0 \<and> assignedRegularOf r = Fin 0 \<and> assignedLargeOf r = Fin 0)"
  using zero_packages_requirement [of
      "\<lparr> DailyForecastData.day = 7, forecast = Some 0, forecastMin = Some 0, forecastMax = Some 12 \<rparr>"
      Capacity True 2200 2800 "[7 \<mapsto> \<lparr> regular = 3, large = 1 \<rparr>]"]
  by (simp add: Let_def remainingOf_def assignedRegularOf_def assignedLargeOf_def)

text \<open>
  Claim C9.  In the cost branch the test
  \<open>remainder > 0.6 \<times> regularCapacity || regularTruckCost > 1\<close> is equivalent to its first
  disjunct: whenever the remainder is positive, \<open>regularTruckCost = remainder / capacity\<close>
  is not above 1, so the recommendation computed with the first disjunct alone equals the
  recommendation of the source for all arguments.  For \<open>packages > 0\<close> and
  \<open>regularCapacity > 0\<close> the remainder is \<open>packages mod regularCapacity\<close>, below the
  capacity, and the cost is their quotient, below 1.
\<close>

theorem cost_second_disjunct_dead:
  "recommend s u c l p = recommend_simplified s u c l p
   \<and> \<not> (js_gt (js_rem p c) (Fin 0) \<and> js_gt (js_div (js_rem p c) c) (Fin 1))
   \<and> (0 < n \<and> 0 < rc \<longrightarrow>
        js_rem (jsint n) (jsint rc) = jsint (n mod rc) \<and> n mod rc < rc
        \<and> js_div (js_rem (jsint n) (jsint rc)) (jsint rc) = Fin (real_of_int (n mod rc) / real_of_int rc)
        \<and> real_of_int (n mod rc) / real_of_int rc < 1)"
proof (intro conjI impI)
  show "recommend s u c l p = recommend_simplified s u c l p"
    by (rule recommend_simplified_eq)
  show "\<not> (js_gt (js_rem p c) (Fin 0) \<and> js_gt (js_div (js_rem p c) c) (Fin 1))"
    by (rule js_rem_cost_dead)
next
  assume h: "0 < n \<and> 0 < rc"
  then have n: "0 \<le> n" and rc: "0 < rc" by simp_all
  show rem: "js_rem (jsint n) (jsint rc) = jsint (n mod rc)"
    by (rule js_rem_int [OF n rc])
  show lt: "n mod rc < rc" using rc by simp
  show "js_div (js_rem (jsint n) (jsint rc)) (jsint rc) = Fin (real_of_int (n mod rc) / real_of_int rc)"
    unfolding rem using rc by simp
  show "real_of_int (n mod rc) / real_of_int rc < 1"
    using lt rc by simp
qed

theorem cost_second_disjunct_dead_witness:
  "(0::int) < 3600 \<and> (0::int) < 2200
   \<and> recommend Cost True (jsint 2200) (jsint 2800) (jsint 3600)
       = recommend_simplified Cost True (jsint 2200) (jsint 2800) (jsint 3600)
   \<and> recommend Cost True (jsint 2200) (jsint 2800) (jsint 3600) = (Fin 1, Fin 1)
   \<and> js_rem (jsint 3600) (jsint 2200) = Fin 1400
   \<and> js_div (js_rem (jsint 3600) (jsint 2200)) (jsint 2200) = Fin (1400 / 2200)"
  using cost_second_disjunct_dead [of Cost True "jsint 2200" "jsint 2800" "jsint 3600" 3600 2200]
  by (simp add: recommend_simplified_def Let_def js_trunc_def)

text \<open>
  Claim C10.  On a day with \<open>packages > 0\<close>, positive capacities and no manual assignment,
  the recommendation of either strategy, with or without large trucks, consists of
  non-negative integer truck counts whose total capacity
  \<open>regularTrucks \<times> regularCapacity + largeTrucks \<times> largeCapacityMax\<close> is at least the
  packages, and the remaining packages of the requirement are 0.
\<close>

theorem recommendation_covers_demand:
  assumes "forecast d = Some p" and "0 < p" and "0 < rc" and "0 < lc"
    and "m (DailyForecastData.day d) = None"
  shows "\<exists>a b. 0 \<le> a \<and> 0 \<le> b
           \<and> regularTrucks (fleetRequirement s u rc lc m d) = jsint a
           \<and> largeTrucks (fleetRequirement s u rc lc m d) = jsint b
           \<and> totalCapacity (fleetRequirement s u rc lc m d) = jsint (a * rc + b * lc)
           \<and> p \<le> a * rc + b * lc
           \<and> remainingPackages (fleetRequirement s u rc lc m d) = Some (Fin 0)"
proof -
  from recommend_int [OF assms(2,3,4), of s u]
  obtain a b where ab: "0 \<le> a" "0 \<le> b" "p \<le> a * rc + b * lc"
    and rec: "recommend s u (jsint rc) (jsint lc) (jsint p) = (jsint a, jsint b)"
    by blast
  have "p \<noteq> 0" using assms(2) by simp
  note req = fleetRequirement_int [OF assms(1) this rec, of m]
  have "remainingPackages (fleetRequirement s u rc lc m d) = Some (Fin 0)"
    unfolding req using assms(5) ab(3) by (simp add: max_def)
  moreover have "regularTrucks (fleetRequirement s u rc lc m d) = jsint a"
    and "largeTrucks (fleetRequirement s u rc lc m d) = jsint b"
    and "totalCapacity (fleetRequirement s u rc lc m d) = jsint (a * rc + b * lc)"
    unfolding req by simp_all
  ultimately show ?thesis using ab by blast
qed

theorem recommendation_covers_demand_witness:
  "(let d = \<lparr> DailyForecastData.day = 4, forecast = Some 7000, forecastMin = None, forecastMax = None \<rparr>;
        r = fleetRequirement Capacity True 2200 2800 Map.empty d
    in forecast d = Some 7000 \<and> (0::int) < 7000 \<and> (0::int) < 2200 \<and> (0::int) < 2800
       \<and> Map.empty (DailyForecastData.day d) = (None :: ManualAssignment option)
       \<and> (\<exists>a b. 0 \<le> a \<and> 0 \<le> b \<and> regularTrucks r = jsint a \<and> largeTrucks r = jsint b
              \<and> totalCapacity r = jsint (a * 2200 + b * 2800) \<and> 7000 \<le> a * 2200 + b * 2800)
       \<and> remainingPackages r = Some (Fin 0))"
  using recommendation_covers_demand [of
      "\<lparr> DailyForecastData.day = 4, forecast = Some 7000, forecastMin = None, forecastMax = None \<rparr>"
      7000 2200 2800 Map.empty Capacity True]
  by (auto simp: Let_def)

text \<open>
  Claim C2.  On a day with \<open>packages > 0\<close>, positive capacities and any map of manual
  assignments, the assigned truck counts are those of the manual assignment of the day when
  there is one and the recommended counts otherwise, and
  \<open>remainingPackages = max(0, packages - assignedCapacity)\<close> with
  \<open>assignedCapacity = assignedRegularTrucks \<times> regularCapacity
     + assignedLargeTrucks \<times> largeCapacityMax\<close>.  Hence assigned capacity plus remaining
  packages cover the packages, and nothing remains when the assigned capacity covers them.
  In particular a manual assignment of no truck at all on a day with 500 packages leaves
  500 remaining packages.
\<close>

theorem remaining_packages_formula:
  assumes "forecast d = Some p" and "0 < p" and "0 < rc" and "0 < lc"
  shows "\<exists>ar al.
           assignedRegularTrucks (fleetRequirement s u rc lc m d) = Some (jsint ar)
         \<and> assignedLargeTrucks (fleetRequirement s u rc lc m d) = Some (jsint al)
         \<and> (case m (DailyForecastData.day d) of
              Some x \<Rightarrow> ar = regular x \<and> al = large x
            | None \<Rightarrow> regularTrucks (fleetRequirement s u rc lc m d) = jsint ar
                      \<and> largeTrucks (fleetRequirement s u rc lc m d) = jsint al)
         \<and> remainingPackages (fleetRequirement s u rc lc m d)
             = Some (jsint (max 0 (p - (ar * rc + al * lc))))
         \<and> p \<le> (ar * rc + al * lc) + max 0 (p - (ar * rc + al * lc))
         \<and> (p \<le> ar * rc + al * lc
              \<longrightarrow> remainingPackages (fleetRequirement s u rc lc m d) = Some (Fin 0))
         \<and> (p = 500 \<and> m (DailyForecastData.day d) = Some \<lparr> regular = 0, large = 0 \<rparr>
              \<longrightarrow> remainingPackages (fleetRequirement s u rc lc m d) = Some (Fin 500))"
proof -
  from recommend_int [OF assms(2,3,4), of s u]
  obtain a b where rec: "recommend s u (jsint rc) (jsint lc) (jsint p) = (jsint a, jsint b)"
    by blast
  have "p \<noteq> 0" using assms(2) by simp
  note req = fleetRequirement_int [OF assms(1) this rec, of m]
  define ar where "ar = (case m (DailyForecastData.day d) of Some x \<Rightarrow> regular x | None \<Rightarrow> a)"
  define al where "al = (case m (DailyForecastData.day d) of Some x \<Rightarrow> large x | None \<Rightarrow> b)"
  have 1: "assignedRegularTrucks (fleetRequirement s u rc lc m d) = Some (jsint ar)"
    and 2: "assignedLargeTrucks (fleetRequirement s u rc lc m d) = Some (jsint al)"
    and 4: "remainingPackages (fleetRequirement s u rc lc m d)
              = Some (jsint (max 0 (p - (ar * rc + al * lc))))"
    unfolding req ar_def al_def by simp_all
  have 3: "case m (DailyForecastData.day d) of
              Some x \<Rightarrow> ar = regular x \<and> al = large x
            | None \<Rightarrow> regularTrucks (fleetRequirement s u rc lc m d) = jsint ar
                      \<and> largeTrucks (fleetRequirement s u rc lc m d) = jsint al"
    unfolding req ar_def al_def by (simp split: option.split)
  have 5: "p \<le> (ar * rc + al * lc) + max 0 (p - (ar * rc + al * lc))"
    by simp
  have 6: "p \<le> ar * rc + al * lc
             \<longrightarrow> remainingPackages (fleetRequirement s u rc lc m d) = Some (Fin 0)"
    unfolding 4 by (simp add: max_def)
  have 7: "p = 500 \<and> m (DailyForecastData.day d) = Some \<lparr> regular = 0, large = 0 \<rparr>
             \<longrightarrow> remainingPackages (fleetRequirement s u rc lc m d) = Some (Fin 500)"
    unfolding 4 ar_def al_def by simp
  from 1 2 3 4 5 6 7 show ?thesis by blast
qed

theorem remaining_packages_formula_witness:
  "(let d = \<lparr> DailyForecastData.day = 9, forecast = Some 500, forecastMin = None, forecastMax = None \<rparr>;
        r = fleetRequirement Cost True 2200 2800 [9 \<mapsto> \<lparr> regular = 0, large = 0 \<rparr>] d
    in forecast d = Some 500 \<and> (0::int) < 500 \<and> (0::int) < 2200 \<and> (0::int) < 2800
       \<and> assignedRegularTrucks r = Some (Fin 0) \<and> assignedLargeTrucks r = Some (Fin 0)
       \<and> remainingPackages r = Some (Fin 500))"
  using remaining_packages_formula [of
      "\<lparr> DailyForecastData.day = 9, forecast = Some 500, forecastMin = None, forecastMax = None \<rparr>"
      500 2200 2800 Cost True "[9 \<mapsto> \<lparr> regular = 0, large = 0 \<rparr>]"]
  by (auto simp: Let_def)

text \<open>
  Claim C1 as stated fails: the source has no validation of the capacities and no error
  result.  With \<open>regularTruckCapacity = 0\<close> under the cost strategy, a day with 3000
  packages gets \<open>Math.floor(3000 / 0) = Infinity\<close> regular trucks, a NaN capacity and NaN
  remaining packages.
\<close>

theorem zero_capacity_not_rejected:
  "calculateFleetRequirements Cost True 0 2800 Map.empty [] None None
     [\<lparr> DailyForecastData.day = 1, forecast = Some 3000, forecastMin = None, forecastMax = None \<rparr>]
   = [\<lparr> day = 1, packages = 3000,
        regularTrucks = PInf, largeTrucks = Fin 0, totalTrucks = PInf,
        regularCapacity = NaN, largeCapacity = Fin 0, totalCapacity = NaN,
        assignedRegularTrucks = Some PInf, assignedLargeTrucks = Some (Fin 0),
        remainingPackages = Some NaN \<rparr>]"
  by (simp add: calculateFleetRequirements_def dataToProcess_def fleetRequirement_def
        recommend_def js_inf_def js_sub_def Let_def)

text \<open>
  Claim C1, amended.  The allocator returns one requirement per processed day for every
  configuration, whatever the capacities; when both capacities are positive and the
  forecast of the day is not negative, the recommended numbers of regular and large trucks
  and their total are finite non-negative integers.
\<close>

theorem positive_capacities_finite_counts:
  assumes "0 < rc" and "0 < lc"
    and "case forecast d of Some f \<Rightarrow> 0 \<le> f | None \<Rightarrow> True"
  shows "(\<exists>a b. 0 \<le> a \<and> 0 \<le> b
            \<and> regularTrucks (fleetRequirement s u rc lc m d) = jsint a
            \<and> largeTrucks (fleetRequirement s u rc lc m d) = jsint b
            \<and> totalTrucks (fleetRequirement s u rc lc m d) = jsint (a + b))
       \<and> length (calculateFleetRequirements s u rc' lc' m t sd ts fd)
           = length (dataToProcess t sd ts fd)"
proof
  show "length (calculateFleetRequirements s u rc' lc' m t sd ts fd)
          = length (dataToProcess t sd ts fd)"
    by (simp add: calculateFleetRequirements_def)
  show "\<exists>a b. 0 \<le> a \<and> 0 \<le> b
            \<and> regularTrucks (fleetRequirement s u rc lc m d) = jsint a
            \<and> largeTrucks (fleetRequirement s u rc lc m d) = jsint b
            \<and> totalTrucks (fleetRequirement s u rc lc m d) = jsint (a + b)"
  proof (cases "(case forecast d of Some f \<Rightarrow> f | None \<Rightarrow> 0) = 0")
    case True
    then have "regularTrucks (fleetRequirement s u rc lc m d) = jsint 0"
      and "largeTrucks (fleetRequirement s u rc lc m d) = jsint 0"
      and "totalTrucks (fleetRequirement s u rc lc m d) = jsint (0 + 0)"
      by (simp_all add: fleetRequirement_def)
    then show ?thesis by (metis order_refl)
  next
    case False
    then obtain p where p: "forecast d = Some p" "p \<noteq> 0"
      by (cases "forecast d") simp_all
    then have "0 < p" using assms(3) by simp
    from recommend_int [OF this assms(1,2), of s u]
    obtain a b where ab: "0 \<le> a" "0 \<le> b"
      and rec: "recommend s u (jsint rc) (jsint lc) (jsint p) = (jsint a, jsint b)"
      by blast
    note req = fleetRequirement_int [OF p rec, of m]
    have "regularTrucks (fleetRequirement s u rc lc m d) = jsint a"
      and "largeTrucks (fleetRequirement s u rc lc m d) = jsint b"
      and "totalTrucks (fleetRequirement s u rc lc m d) = jsint (a + b)"
      unfolding req by simp_all
    with ab show ?thesis by blast
  qed
qed

theorem positive_capacities_finite_counts_witness:
  "(let d = \<lparr> DailyForecastData.day = 1, forecast = Some 3000, forecastMin = None, forecastMax = None \<rparr>
    in (0::int) < 2200 \<and> (0::int) < 2800
       \<and> (case forecast d of Some f \<Rightarrow> 0 \<le> f | None \<Rightarrow> True)
       \<and> (\<exists>a b. 0 \<le> a \<and> 0 \<le> b
            \<and> regularTrucks (fleetRequirement Cost True 2200 2800 Map.empty d) = jsint a
            \<and> largeTrucks (fleetRequirement Cost True 2200 2800 Map.empty d) = jsint b
            \<and> totalTrucks (fleetRequirement Cost True 2200 2800 Map.empty d) = jsint (a + b))
       \<and> length (calculateFleetRequirements Cost True 0 2800 Map.empty [] None None [d])
           = length (dataToProcess [] None None [d]))"
  using positive_capacities_finite_counts [of 2200 2800
      "\<lparr> DailyForecastData.day = 1, forecast = Some 3000, forecastMin = None, forecastMax = None \<rparr>"
      Cost True Map.empty 0 2800 "[]" None None
      "[\<lparr> DailyForecastData.day = 1, forecast = Some 3000, forecastMin = None, forecastMax = None \<rparr>]"]
  by (simp add: Let_def)

section \<open>Properties of the demand forecast\<close>

text \<open>
  The denominator \<open>n * sumXX - sumX * sumX\<close> of the slope, for \<open>n > 1\<close> monthly averages.
\<close>

lemma trend_denominator_pos:
  fixes n :: real
  assumes "1 < n"
  shows "0 < n * ((n * (n + 1) * (2 * n + 1)) / 6) - ((n * (n + 1)) / 2) * ((n * (n + 1)) / 2)"
proof -
  have "n * ((n * (n + 1) * (2 * n + 1)) / 6) - ((n * (n + 1)) / 2) * ((n * (n + 1)) / 2)
          = n * n * (n + 1) * (n - 1) / 12"
    by (simp add: field_simps)
  moreover have "0 < n * n * (n + 1) * (n - 1) / 12"
    using assms by simp
  ultimately show ?thesis by simp
qed

lemma day_forecastPoint [simp]: "DailyData.day (forecastPoint fl hm dow k) = k"
  by (simp add: forecastPoint_def Let_def)

lemma forecastLoop_days:
  "map DailyData.day (forecastLoop fl hm f y m n d) =
     filter (\<lambda>k. case f of All \<Rightarrow> True | Weekday \<Rightarrow> \<not> isWeekend y m k | Weekend \<Rightarrow> isWeekend y m k)
       [d..n]"
proof (induction fl hm f y m n d rule: forecastLoop.induct)
  case (1 fl hm f y m n d)
  show ?case
  proof (cases "d \<le> n")
    case False
    then show ?thesis by (simp add: forecastLoop.simps [of fl hm f y m n d])
  next
    case True
    then have up: "[d..n] = d # [d + 1..n]" by (simp add: upto_rec1)
    have step: "forecastLoop fl hm f y m n d =
        (if f = Weekend \<and> \<not> isWeekend y m d then forecastLoop fl hm f y m n (d + 1)
         else if f = Weekday \<and> isWeekend y m d then forecastLoop fl hm f y m n (d + 1)
         else forecastPoint fl hm (getDay (js_Date y (m - 1) d)) d # forecastLoop fl hm f y m n (d + 1))"
      using True by (subst forecastLoop.simps) (simp add: isWeekend_def Let_def)
    have ih: "map DailyData.day (forecastLoop fl hm f y m n (d + 1)) =
        filter (\<lambda>k. case f of All \<Rightarrow> True | Weekday \<Rightarrow> \<not> isWeekend y m k | Weekend \<Rightarrow> isWeekend y m k)
          [d + 1..n]"
      using "1.IH" [OF True refl refl] by blast
    show ?thesis
      unfolding up step using ih by (cases f) simp_all
  qed
qed

lemma forecastLoop_points:
  "p \<in> set (forecastLoop fl hm f y m n d) \<Longrightarrow> \<exists>dow k. p = forecastPoint fl hm dow k"
proof (induction fl hm f y m n d rule: forecastLoop.induct)
  case (1 fl hm f y m n d)
  show ?case
  proof (cases "d \<le> n")
    case False
    then show ?thesis using "1.prems" by (simp add: forecastLoop.simps [of fl hm f y m n d])
  next
    case True
    have step: "set (forecastLoop fl hm f y m n d)
        \<subseteq> insert (forecastPoint fl hm (getDay (js_Date y (m - 1) d)) d)
            (set (forecastLoop fl hm f y m n (d + 1)))"
      using True by (subst forecastLoop.simps) (auto simp: Let_def)
    have ih: "p \<in> set (forecastLoop fl hm f y m n (d + 1))
        \<Longrightarrow> \<exists>dow k. p = forecastPoint fl hm dow k"
      using "1.IH" [OF True refl refl] by blast
    show ?thesis
      using "1.prems" step ih by blast
  qed
qed

lemma sorted_wrt_less_upto: "sorted_wrt (<) [i..j]"
  by (simp add: strict_sorted_iff)

text \<open>
  Claim C4.  For a non-empty history the days of the forecast are exactly the days
  \<open>1..days in the target month\<close> that pass the day-type filter (every day for \<open>all\<close>, the
  Saturdays and Sundays of the target month for \<open>weekend\<close>, the other days for
  \<open>weekday\<close>), one point per such day, in increasing order of the day; an empty history
  gives an empty forecast.  For November 2025 with the filter \<open>weekday\<close> the days are
  the twenty listed, so that 1, 2, 8, 9, 15, 16, 22, 23, 29 and 30 are absent.
\<close>

theorem forecast_days_match_filter:
  "(historical \<noteq> [] \<longrightarrow>
      map DailyData.day (calculateForecast historical historicalMeta dayTypeFilter targetYear targetMonth)
        = filter (\<lambda>k. case dayTypeFilter of
                         All \<Rightarrow> True
                       | Weekday \<Rightarrow> \<not> isWeekend targetYear targetMonth k
                       | Weekend \<Rightarrow> isWeekend targetYear targetMonth k)
            [1..daysInMonth targetYear targetMonth])
   \<and> sorted_wrt (<)
        (map DailyData.day (calculateForecast historical historicalMeta dayTypeFilter targetYear targetMonth))
   \<and> calculateForecast [] historicalMeta dayTypeFilter targetYear targetMonth = []
   \<and> (historical \<noteq> [] \<longrightarrow>
        map DailyData.day (calculateForecast historical historicalMeta Weekday 2025 11)
          = [3, 4, 5, 6, 7, 10, 11, 12, 13, 14, 17, 18, 19, 20, 21, 24, 25, 26, 27, 28])"
proof (intro conjI impI)
  assume h: "historical \<noteq> []"
  then show "map DailyData.day
       (calculateForecast historical historicalMeta dayTypeFilter targetYear targetMonth)
        = filter (\<lambda>k. case dayTypeFilter of
                         All \<Rightarrow> True
                       | Weekday \<Rightarrow> \<not> isWeekend targetYear targetMonth k
                       | Weekend \<Rightarrow> isWeekend targetYear targetMonth k)
            [1..daysInMonth targetYear targetMonth]"
    by (simp add: calculateForecast_def forecastLoop_days)
next
  show "sorted_wrt (<)
        (map DailyData.day (calculateForecast historical historicalMeta dayTypeFilter targetYear targetMonth))"
    by (simp add: calculateForecast_def forecastLoop_days sorted_wrt_filter sorted_wrt_less_upto)
next
  show "calculateForecast [] historicalMeta dayTypeFilter targetYear targetMonth = []"
    by (simp add: calculateForecast_def)
next
  assume h: "historical \<noteq> []"
  have "map DailyData.day (calculateForecast historical historicalMeta Weekday 2025 11)
          = filter (\<lambda>k. \<not> isWeekend 2025 11 k) [1..daysInMonth 2025 11]"
    using h by (simp add: calculateForecast_def forecastLoop_days)
  also have "\<dots> = [3, 4, 5, 6, 7, 10, 11, 12, 13, 14, 17, 18, 19, 20, 21, 24, 25, 26, 27, 28]"
    by (simp add: isWeekend_def daysInMonth_def days_in_month_def leap_year_def js_full_year_def js_Date_def
          getDay_def days_before_year_def days_before_month_def upto_rec1 Let_def)
  finally show "map DailyData.day (calculateForecast historical historicalMeta Weekday 2025 11)
          = [3, 4, 5, 6, 7, 10, 11, 12, 13, 14, 17, 18, 19, 20, 21, 24, 25, 26, 27, 28]" .
qed

lemmas forecast_eval = calculateForecast_def filteredHistorical_def filterByDayType_def isWeekend_def
  forecastPoint_def overallAverage_def allValues_def monthlyAverages_def trend_def average_def
  dayOfWeekAverages_def dayOfWeekPatterns_def addDay_def stdDev_def nth_opt_def js_round_def
  daysInMonth_def days_in_month_def js_full_year_def leap_year_def js_Date_def getDay_def
  days_before_year_def days_before_month_def enumerate_eq_zip Let_def upto_rec1 forecastLoop.simps

theorem forecast_days_match_filter_witness:
  "[[\<lparr> DailyData.day = 1, value = 100, forecast = None, forecastMin = None, forecastMax = None \<rparr>]] \<noteq> []
   \<and> map DailyData.day
         (calculateForecast
            [[\<lparr> DailyData.day = 1, value = 100, forecast = None, forecastMin = None, forecastMax = None \<rparr>]]
            [\<lparr> year = 2025, month = 10 \<rparr>] Weekday 2025 11)
       = [3, 4, 5, 6, 7, 10, 11, 12, 13, 14, 17, 18, 19, 20, 21, 24, 25, 26, 27, 28]
   \<and> map DailyData.day
         (calculateForecast
            [[\<lparr> DailyData.day = 1, value = 100, forecast = None, forecastMin = None, forecastMax = None \<rparr>]]
            [\<lparr> year = 2025, month = 10 \<rparr>] Weekend 2025 11)
       = [1, 2, 8, 9, 15, 16, 22, 23, 29, 30]"
  using
    forecast_days_match_filter [of
      "[[\<lparr> DailyData.day = 1, value = 100, forecast = None, forecastMin = None, forecastMax = None \<rparr>]]"
      "[\<lparr> year = 2025, month = 10 \<rparr>]" Weekend 2025 11]
  by (simp add: isWeekend_def daysInMonth_def days_in_month_def leap_year_def js_full_year_def
        js_Date_def getDay_def days_before_year_def days_before_month_def upto_rec1 Let_def)

lemma sum_list_pos_nonneg: "sum_list (filter (\<lambda>v. 0 < v) xs) \<ge> (0::real)"
  by (induction xs) auto

lemma overallAverage_nonneg: "0 \<le> overallAverage fl"
  by (simp add: overallAverage_def allValues_def average_def sum_list_pos_nonneg)

lemma sum_list_squares_nonneg: "0 \<le> sum_list (map (\<lambda>val. (val - c) ^ 2) (xs :: real list))"
  by (induction xs) auto

lemma stdDev_nonneg: "0 \<le> overall \<Longrightarrow> 0 \<le> stdDev values overall"
  by (simp add: stdDev_def sum_list_squares_nonneg)

lemma js_round_mono: "x \<le> y \<Longrightarrow> js_round x \<le> js_round y"
  unfolding js_round_def by (rule floor_mono) simp

lemma forecastPoint_ordered:
  "\<exists>a lo hi. DailyData.forecast (forecastPoint fl hm dow k) = Some a
     \<and> DailyData.forecastMin (forecastPoint fl hm dow k) = Some lo
     \<and> DailyData.forecastMax (forecastPoint fl hm dow k) = Some hi
     \<and> 0 \<le> lo \<and> lo \<le> a \<and> a \<le> hi"
proof -
  define sd where "sd = stdDev (allValues fl) (overallAverage fl)"
  have sd: "0 \<le> sd"
    unfolding sd_def by (rule stdDev_nonneg [OF overallAverage_nonneg])
  have *: "max 0 (js_round (x - sd)) \<le> max 0 (js_round x)"
    "max 0 (js_round x) \<le> max 0 (js_round (x + sd))" for x
    using js_round_mono [of "x - sd" x] js_round_mono [of x "x + sd"] sd by simp_all
  show ?thesis
    unfolding forecastPoint_def Let_def sd_def [symmetric]
    using * by simp
qed

text \<open>
  Claim C3.  Every point of the forecast carries three integers with
  \<open>0 \<le> forecastMin \<le> forecast \<le> forecastMax\<close>.
\<close>

theorem forecast_bounds_ordered:
  "\<forall>p \<in> set (calculateForecast historical historicalMeta dayTypeFilter targetYear targetMonth).
     \<exists>a lo hi. DailyData.forecast p = Some a
       \<and> DailyData.forecastMin p = Some lo
       \<and> DailyData.forecastMax p = Some hi
       \<and> 0 \<le> lo \<and> lo \<le> a \<and> a \<le> hi"
proof
  fix p
  assume "p \<in> set (calculateForecast historical historicalMeta dayTypeFilter targetYear targetMonth)"
  then have "p \<in> set (forecastLoop (filteredHistorical historical historicalMeta dayTypeFilter)
                 historicalMeta dayTypeFilter targetYear targetMonth
                 (daysInMonth targetYear targetMonth) 1)"
    by (simp add: calculateForecast_def split: if_splits)
  then obtain dow k where
    "p = forecastPoint (filteredHistorical historical historicalMeta dayTypeFilter) historicalMeta dow k"
    using forecastLoop_points by blast
  then show "\<exists>a lo hi. DailyData.forecast p = Some a
       \<and> DailyData.forecastMin p = Some lo
       \<and> DailyData.forecastMax p = Some hi
       \<and> 0 \<le> lo \<and> lo \<le> a \<and> a \<le> hi"
    using forecastPoint_ordered by simp
qed

theorem forecast_bounds_ordered_witness:
  "\<lparr> DailyData.day = 1, value = 0, forecast = Some 100, forecastMin = Some 80, forecastMax = Some 120 \<rparr>
     \<in> set (calculateForecast
            [[\<lparr> DailyData.day = 1, value = 100, forecast = None, forecastMin = None, forecastMax = None \<rparr>]]
            [\<lparr> year = 2025, month = 10 \<rparr>] All 2025 11)
   \<and> (\<exists>a lo hi.
         DailyData.forecast \<lparr> DailyData.day = 1, value = 0, forecast = Some 100,
                               forecastMin = Some 80, forecastMax = Some 120 \<rparr> = Some a
       \<and> DailyData.forecastMin \<lparr> DailyData.day = 1, value = 0, forecast = Some 100,
                                  forecastMin = Some 80, forecastMax = Some 120 \<rparr> = Some lo
       \<and> DailyData.forecastMax \<lparr> DailyData.day = 1, value = 0, forecast = Some 100,
                                  forecastMin = Some 80, forecastMax = Some 120 \<rparr> = Some hi
       \<and> 0 \<le> lo \<and> lo \<le> a \<and> a \<le> hi)"
proof -
  have m: "\<lparr> DailyData.day = 1, value = 0, forecast = Some 100, forecastMin = Some 80, forecastMax = Some 120 \<rparr>
     \<in> set (calculateForecast
            [[\<lparr> DailyData.day = 1, value = 100, forecast = None, forecastMin = None, forecastMax = None \<rparr>]]
            [\<lparr> year = 2025, month = 10 \<rparr>] All 2025 11)"
    by (simp add: forecast_eval)
  from forecast_bounds_ordered [rule_format, OF m] m show ?thesis by blast
qed

lemma filter_pos_const:
  assumes "\<forall>x \<in> set xs. x = v" and "0 < (v::real)"
  shows "filter (\<lambda>x. 0 < x) xs = xs"
  using assms by (induction xs) auto

lemma sum_list_const:
  assumes "\<forall>x \<in> set xs. x = (v::real)"
  shows "sum_list xs = real (length xs) * v"
  using assms by (induction xs) (simp_all add: algebra_simps)

lemma average_const:
  assumes "xs \<noteq> []" and "\<forall>x \<in> set xs. x = v"
  shows "average xs = v"
  using assms by (simp add: average_def sum_list_const)

lemma weighted_sum_const:
  assumes "\<forall>x \<in> set xs. x = (v::real)"
  shows "sum_list (map (\<lambda>(idx, val). (real idx + 1) * val) (enumerate k xs))
           = v * (real (length xs) * real k + real (length xs) * (real (length xs) + 1) / 2)"
  using assms
proof (induction xs arbitrary: k)
  case Nil
  then show ?case by simp
next
  case (Cons x xs)
  then have "x = v" and "\<forall>x \<in> set xs. x = v" by simp_all
  with Cons.IH [of "Suc k"] show ?case
    by (simp add: field_simps)
qed

lemma trend_const:
  assumes "\<forall>x \<in> set xs. x = v"
  shows "trend xs = 0"
proof (cases "1 < length xs")
  case False
  then show ?thesis by (simp add: trend_def)
next
  case True
  have "real (length xs) * sum_list (map (\<lambda>(idx, val). (real idx + 1) * val) (enumerate 0 xs))
          - (real (length xs) * (real (length xs) + 1)) / 2 * sum_list xs = 0"
    unfolding weighted_sum_const [OF assms] sum_list_const [OF assms]
    by (simp add: field_simps)
  then show ?thesis
    using True by (simp add: trend_def Let_def)
qed

lemma fold_invariant:
  assumes "I s" and "\<And>x s. x \<in> set xs \<Longrightarrow> I s \<Longrightarrow> I (f x s)"
  shows "I (fold f xs s)"
  using assms by (induction xs arbitrary: s) simp_all

lemma addDay_const:
  assumes "buckets_const v patterns" and "value d = v"
  shows "buckets_const v (addDay meta d patterns)"
proof -
  let ?dow = "getDay (js_Date (year meta) (month meta - 1) (DailyData.day d))"
  let ?bucket = "case patterns ?dow of None \<Rightarrow> [] | Some vs \<Rightarrow> vs"
  have b: "\<forall>x \<in> set ?bucket. x = v"
  proof (cases "patterns ?dow")
    case None
    then show ?thesis by simp
  next
    case (Some vs)
    then show ?thesis using assms(1) by (simp add: buckets_const_def)
  qed
  have "\<forall>x \<in> set (if 0 < value d then ?bucket @ [value d] else ?bucket). x = v"
    using b assms(2) by auto
  then show ?thesis
    using assms(1) unfolding buckets_const_def addDay_def Let_def
    by (metis fun_upd_apply option.inject)
qed

lemma dayOfWeekPatterns_const:
  assumes "\<forall>monthData \<in> set fl. \<forall>d \<in> set monthData. value d = v"
  shows "buckets_const v (dayOfWeekPatterns fl hm)"
  unfolding dayOfWeekPatterns_def
proof (rule fold_invariant [where I = "buckets_const v"])
  show "buckets_const v Map.empty" by (simp add: buckets_const_def)
next
  fix x :: "nat \<times> DailyData list" and s :: "int \<rightharpoonup> real list"
  assume x: "x \<in> set (enumerate 0 fl)" and s: "buckets_const v s"
  obtain idx monthData where xe: "x = (idx, monthData)" by (cases x)
  with x have md: "monthData \<in> set fl" by (auto simp: in_set_enumerate_eq)
  show "buckets_const v
          ((\<lambda>(idx, monthData) patterns.
              case nth_opt hm idx of
                Some meta \<Rightarrow> fold (addDay meta) monthData patterns
              | None \<Rightarrow> patterns) x s)"
  proof (cases "nth_opt hm idx")
    case None
    then show ?thesis using s xe by simp
  next
    case (Some meta)
    have "buckets_const v (fold (addDay meta) monthData s)"
    proof (rule fold_invariant [where I = "buckets_const v", OF s])
      fix d and p :: "int \<rightharpoonup> real list"
      assume "d \<in> set monthData" and "buckets_const v p"
      then show "buckets_const v (addDay meta d p)"
        using assms md by (intro addDay_const) auto
    qed
    then show ?thesis using Some xe by simp
  qed
qed

lemma dayOfWeekAverages_const:
  assumes "buckets_const v patterns"
  shows "dayOfWeekAverages patterns v dow = None \<or> dayOfWeekAverages patterns v dow = Some v"
proof (cases "patterns dow")
  case None
  then show ?thesis by (simp add: dayOfWeekAverages_def)
next
  case (Some vs)
  then have "\<forall>x \<in> set vs. x = v"
    using assms by (auto simp: buckets_const_def)
  then have "vs \<noteq> [] \<Longrightarrow> average vs = v"
    by (rule average_const [rotated])
  then show ?thesis using Some by (auto simp: dayOfWeekAverages_def)
qed

lemma js_round_of_int: "js_round (of_int k) = k"
  unfolding js_round_def by linarith

lemma js_round_pos: "0 < v \<Longrightarrow> 0 \<le> js_round v"
  unfolding js_round_def by simp

lemma length_filteredHistorical:
  "length (filteredHistorical historical historicalMeta dayTypeFilter) = length historical"
  by (simp add: filteredHistorical_def)

lemma constant_history:
  assumes ne: "fl \<noteq> []"
    and batches: "\<forall>monthData \<in> set fl. monthData \<noteq> [] \<and> (\<forall>d \<in> set monthData. value d = v)"
    and v: "0 < v"
  shows "overallAverage fl = v" and "trend (monthlyAverages fl) = 0"
    and "DailyData.forecast (forecastPoint fl hm dow k) = Some (js_round v)"
proof -
  have vals: "\<forall>x \<in> set (map value (concat fl)). x = v"
    using batches by auto
  have "hd fl \<in> set fl" using ne by simp
  then have "hd fl \<noteq> []" using batches by blast
  then have "concat fl \<noteq> []" using ne by (cases fl) simp_all
  then have nonempty: "map value (concat fl) \<noteq> []" by simp
  have all: "allValues fl = map value (concat fl)"
    unfolding allValues_def by (rule filter_pos_const [OF vals v])
  show avg: "overallAverage fl = v"
    unfolding overallAverage_def all using nonempty average_const [OF nonempty vals] by simp
  have "\<forall>x \<in> set (monthlyAverages fl). x = v"
  proof
    fix x assume "x \<in> set (monthlyAverages fl)"
    then obtain monthData where md: "monthData \<in> set fl"
      and x: "x = (let values = filter (\<lambda>v. 0 < v) (map value monthData)
                   in if 0 < length values then average values else 0)"
      by (auto simp: monthlyAverages_def)
    have c: "\<forall>y \<in> set (map value monthData). y = v" and n: "map value monthData \<noteq> []"
      using batches md by auto
    show "x = v"
      unfolding x Let_def filter_pos_const [OF c v]
      using n average_const [OF n c] by simp
  qed
  then show tr: "trend (monthlyAverages fl) = 0"
    by (rule trend_const)
  have "\<forall>monthData \<in> set fl. \<forall>d \<in> set monthData. value d = v"
    using batches by blast
  then have "buckets_const v (dayOfWeekPatterns fl hm)"
    by (rule dayOfWeekPatterns_const)
  note dw = dayOfWeekAverages_const [OF this, of dow]
  have "(case dayOfWeekAverages (dayOfWeekPatterns fl hm) v dow of
                Some a \<Rightarrow> if a \<noteq> 0 then a * (7 / 10) + (v + 0 * (real (length fl) + 1)) * (3 / 10)
                          else v + 0 * (real (length fl) + 1)
              | None \<Rightarrow> v + 0 * (real (length fl) + 1)) = v"
    using dw v by auto
  then show "DailyData.forecast (forecastPoint fl hm dow k) = Some (js_round v)"
    unfolding forecastPoint_def Let_def avg tr
    using js_round_pos [OF v] by simp
qed

text \<open>
  Claim C8, amended.  For a non-empty history in which every batch keeps at least one
  observation after the day-type filter and every observation kept has the same positive
  value \<open>v\<close>, an integer count, the overall average is \<open>v\<close>, the trend is 0, and every
  point of the forecast has \<open>forecast = round(v) = v\<close>.
\<close>

theorem constant_history_forecast:
  assumes "historical \<noteq> []"
    and "\<forall>monthData \<in> set (filteredHistorical historical historicalMeta dayTypeFilter).
           monthData \<noteq> [] \<and> (\<forall>d \<in> set monthData. value d = of_int k)"
    and "0 < k"
  shows "overallAverage (filteredHistorical historical historicalMeta dayTypeFilter) = of_int k
       \<and> trend (monthlyAverages (filteredHistorical historical historicalMeta dayTypeFilter)) = 0
       \<and> (\<forall>p \<in> set (calculateForecast historical historicalMeta dayTypeFilter targetYear targetMonth).
             DailyData.forecast p = Some k)
       \<and> js_round (of_int k) = k"
proof -
  let ?fl = "filteredHistorical historical historicalMeta dayTypeFilter"
  have ne: "?fl \<noteq> []"
    using assms(1) length_filteredHistorical [of historical historicalMeta dayTypeFilter]
    by (metis length_0_conv)
  have v: "0 < (of_int k :: real)" using assms(3) by simp
  note c = constant_history [OF ne assms(2) v]
  have r: "js_round (of_int k) = k"
    by (rule js_round_of_int)
  have "\<forall>p \<in> set (calculateForecast historical historicalMeta dayTypeFilter targetYear targetMonth).
             DailyData.forecast p = Some k"
  proof
    fix p
    assume "p \<in> set (calculateForecast historical historicalMeta dayTypeFilter targetYear targetMonth)"
    then have "p \<in> set (forecastLoop ?fl historicalMeta dayTypeFilter targetYear targetMonth
                 (daysInMonth targetYear targetMonth) 1)"
      by (simp add: calculateForecast_def split: if_splits)
    then obtain dow n where "p = forecastPoint ?fl historicalMeta dow n"
      using forecastLoop_points by blast
    then show "DailyData.forecast p = Some k"
      using c(3) [of historicalMeta dow n] r by simp
  qed
  with c(1,2) r show ?thesis by blast
qed

theorem constant_history_forecast_witness:
  "[[\<lparr> DailyData.day = 4, value = 100, forecast = None, forecastMin = None, forecastMax = None \<rparr>,
            \<lparr> DailyData.day = 6, value = 55, forecast = None, forecastMin = None, forecastMax = None \<rparr>],
           [\<lparr> DailyData.day = 1, value = 100, forecast = None, forecastMin = None, forecastMax = None \<rparr>]] \<noteq> []
   \<and> filteredHistorical
          [[\<lparr> DailyData.day = 4, value = 100, forecast = None, forecastMin = None, forecastMax = None \<rparr>,
            \<lparr> DailyData.day = 6, value = 55, forecast = None, forecastMin = None, forecastMax = None \<rparr>],
           [\<lparr> DailyData.day = 1, value = 100, forecast = None, forecastMin = None, forecastMax = None \<rparr>]]
          [\<lparr> year = 2025, month = 10 \<rparr>, \<lparr> year = 2025, month = 11 \<rparr>] Weekend
       = [[\<lparr> DailyData.day = 4, value = 100, forecast = None, forecastMin = None, forecastMax = None \<rparr>],
          [\<lparr> DailyData.day = 1, value = 100, forecast = None, forecastMin = None, forecastMax = None \<rparr>]]
   \<and> (0::int) < 100
   \<and> overallAverage (filteredHistorical
          [[\<lparr> DailyData.day = 4, value = 100, forecast = None, forecastMin = None, forecastMax = None \<rparr>,
            \<lparr> DailyData.day = 6, value = 55, forecast = None, forecastMin = None, forecastMax = None \<rparr>],
           [\<lparr> DailyData.day = 1, value = 100, forecast = None, forecastMin = None, forecastMax = None \<rparr>]]
          [\<lparr> year = 2025, month = 10 \<rparr>, \<lparr> year = 2025, month = 11 \<rparr>] Weekend) = 100
   \<and> trend (monthlyAverages (filteredHistorical
          [[\<lparr> DailyData.day = 4, value = 100, forecast = None, forecastMin = None, forecastMax = None \<rparr>,
            \<lparr> DailyData.day = 6, value = 55, forecast = None, forecastMin = None, forecastMax = None \<rparr>],
           [\<lparr> DailyData.day = 1, value = 100, forecast = None, forecastMin = None, forecastMax = None \<rparr>]]
          [\<lparr> year = 2025, month = 10 \<rparr>, \<lparr> year = 2025, month = 11 \<rparr>] Weekend)) = 0
   \<and> map DailyData.forecast (calculateForecast
          [[\<lparr> DailyData.day = 4, value = 100, forecast = None, forecastMin = None, forecastMax = None \<rparr>,
            \<lparr> DailyData.day = 6, value = 55, forecast = None, forecastMin = None, forecastMax = None \<rparr>],
           [\<lparr> DailyData.day = 1, value = 100, forecast = None, forecastMin = None, forecastMax = None \<rparr>]]
          [\<lparr> year = 2025, month = 10 \<rparr>, \<lparr> year = 2025, month = 11 \<rparr>] Weekend 2025 12)
       = [Some 100, Some 100, Some 100, Some 100, Some 100, Some 100, Some 100, Some 100]"
proof -
  let ?h = "[[\<lparr> DailyData.day = 4, value = 100, forecast = None, forecastMin = None, forecastMax = None \<rparr>,
            \<lparr> DailyData.day = 6, value = 55, forecast = None, forecastMin = None, forecastMax = None \<rparr>],
           [\<lparr> DailyData.day = 1, value = 100, forecast = None, forecastMin = None, forecastMax = None \<rparr>]]"
  let ?m = "[\<lparr> year = 2025, month = 10 \<rparr>, \<lparr> year = 2025, month = 11 \<rparr>]"
  let ?out = "calculateForecast ?h ?m Weekend 2025 12"
  have h1: "?h \<noteq> []" by simp
  have fl: "filteredHistorical ?h ?m Weekend
       = [[\<lparr> DailyData.day = 4, value = 100, forecast = None, forecastMin = None, forecastMax = None \<rparr>],
          [\<lparr> DailyData.day = 1, value = 100, forecast = None, forecastMin = None, forecastMax = None \<rparr>]]"
    by (simp add: filteredHistorical_def filterByDayType_def isWeekend_def nth_opt_def
          js_full_year_def js_Date_def getDay_def days_before_year_def days_before_month_def
          days_in_month_def leap_year_def enumerate_eq_zip Let_def upto_rec1)
  have h2: "\<forall>monthData \<in> set (filteredHistorical ?h ?m Weekend).
         monthData \<noteq> [] \<and> (\<forall>d \<in> set monthData. value d = of_int 100)"
    unfolding fl by simp
  have h3: "(0::int) < 100" by simp
  note c = constant_history_forecast [OF h1 h2 h3, of 2025 12, simplified]
  have "map DailyData.day ?out = [6, 7, 13, 14, 20, 21, 27, 28]"
    using h1
    by (simp add: calculateForecast_def forecastLoop_days isWeekend_def daysInMonth_def
          days_in_month_def leap_year_def js_full_year_def js_Date_def getDay_def
          days_before_year_def days_before_month_def upto_rec1 Let_def)
  then have "length (map DailyData.day ?out) = 8" by simp
  then have len: "length (map DailyData.forecast ?out) = 8" by simp
  have "map DailyData.forecast ?out = replicate 8 (Some 100)"
    using c by (intro replicate_eqI [OF len]) auto
  then have "map DailyData.forecast ?out
       = [Some 100, Some 100, Some 100, Some 100, Some 100, Some 100, Some 100, Some 100]"
    by (simp add: numeral_eq_Suc)
  with c h1 fl h3 show ?thesis by blast
qed

text \<open>
  Claim C8 as stated fails when the filter empties a batch.  October 2025 holds one
  observation, on Friday 3, and November 2025 one, on Saturday 1, both of value 100.  Under
  the filter \<open>weekend\<close> the first batch becomes empty, its monthly average counts as 0,
  and the regression over the averages \<open>[0, 100]\<close> gives a trend of 100: the forecast for
  December 2025 is 190 on Saturdays and 400 on Sundays, not 100.
\<close>

theorem constant_history_empty_batch:
  "filteredHistorical
      [[\<lparr> DailyData.day = 3, value = 100, forecast = None, forecastMin = None, forecastMax = None \<rparr>],
       [\<lparr> DailyData.day = 1, value = 100, forecast = None, forecastMin = None, forecastMax = None \<rparr>]]
      [\<lparr> year = 2025, month = 10 \<rparr>, \<lparr> year = 2025, month = 11 \<rparr>] Weekend
     = [[], [\<lparr> DailyData.day = 1, value = 100, forecast = None, forecastMin = None, forecastMax = None \<rparr>]]
   \<and> overallAverage (filteredHistorical
      [[\<lparr> DailyData.day = 3, value = 100, forecast = None, forecastMin = None, forecastMax = None \<rparr>],
       [\<lparr> DailyData.day = 1, value = 100, forecast = None, forecastMin = None, forecastMax = None \<rparr>]]
      [\<lparr> year = 2025, month = 10 \<rparr>, \<lparr> year = 2025, month = 11 \<rparr>] Weekend) = 100
   \<and> trend (monthlyAverages (filteredHistorical
      [[\<lparr> DailyData.day = 3, value = 100, forecast = None, forecastMin = None, forecastMax = None \<rparr>],
       [\<lparr> DailyData.day = 1, value = 100, forecast = None, forecastMin = None, forecastMax = None \<rparr>]]
      [\<lparr> year = 2025, month = 10 \<rparr>, \<lparr> year = 2025, month = 11 \<rparr>] Weekend)) = 100
   \<and> map DailyData.day (calculateForecast
      [[\<lparr> DailyData.day = 3, value = 100, forecast = None, forecastMin = None, forecastMax = None \<rparr>],
       [\<lparr> DailyData.day = 1, value = 100, forecast = None, forecastMin = None, forecastMax = None \<rparr>]]
      [\<lparr> year = 2025, month = 10 \<rparr>, \<lparr> year = 2025, month = 11 \<rparr>] Weekend 2025 12)
     = [6, 7, 13, 14, 20, 21, 27, 28]
   \<and> map DailyData.forecast (calculateForecast
      [[\<lparr> DailyData.day = 3, value = 100, forecast = None, forecastMin = None, forecastMax = None \<rparr>],
       [\<lparr> DailyData.day = 1, value = 100, forecast = None, forecastMin = None, forecastMax = None \<rparr>]]
      [\<lparr> year = 2025, month = 10 \<rparr>, \<lparr> year = 2025, month = 11 \<rparr>] Weekend 2025 12)
     = [Some 190, Some 400, Some 190, Some 400, Some 190, Some 400, Some 190, Some 400]"
  by (simp add: forecast_eval)

end
